theory Spec2Isabelle
  imports Main "HOL-Library.Word" "HOL-Library.AList" "HOL-Library.Char_ord"
    "HOL-Library.List_Lexorder"
begin

section \<open>Bytes, strings and errors\<close>

text \<open>
  A Go \<open>[]byte\<close> is a list of 8-bit words, a Go \<open>string\<close> that carries text (hex
  strings, process ids, database keys) is an Isabelle \<open>string\<close>. A Go \<open>error\<close> is a value
  of the datatype \<open>error\<close>; a function returning \<open>(T, error)\<close> returns \<open>error + T\<close>, with
  \<open>Inl\<close> for the error. A run-time panic (index out of range) is the error \<open>Panic\<close>.
\<close>

type_synonym byte = "8 word"
type_synonym bytes = "byte list"

datatype error =
    Errorf string           \<comment> \<open>\<open>fmt.Errorf\<close> / \<open>errors.New\<close> with its message\<close>
  | ErrLength               \<comment> \<open>\<open>hex.ErrLength\<close>: odd length hex string\<close>
  | InvalidByteError char   \<comment> \<open>\<open>hex.InvalidByteError\<close>\<close>
  | ErrSyntax               \<comment> \<open>\<open>strconv.ErrSyntax\<close>\<close>
  | ErrRange                \<comment> \<open>\<open>strconv.ErrRange\<close>\<close>
  | ErrKeyNotFound          \<comment> \<open>\<open>badger.ErrKeyNotFound\<close>\<close>
  | ExternalError string    \<comment> \<open>an error reported by a library outside the repository\<close>
  | Panic string            \<comment> \<open>a run-time panic\<close>

definition bytes_of_string :: "string \<Rightarrow> bytes" where
  "bytes_of_string s = map (\<lambda>c. of_nat (of_char c)) s"

text \<open>The builtin \<open>copy(dst, src)\<close>: overwrites the first \<open>min (len dst) (len src)\<close>
  elements of \<open>dst\<close>; the result is the new content of \<open>dst\<close>.\<close>

definition go_copy :: "'a list \<Rightarrow> 'a list \<Rightarrow> 'a list" where
  "go_copy dst src = (let n = min (length dst) (length src) in take n src @ drop n dst)"

text \<open>\<open>copy(data[i:], src)\<close>: the slice \<open>data[i:]\<close> shares the array of \<open>data\<close>, so the
  copy lands in \<open>data\<close> from offset \<open>i\<close> on (\<open>i \<le> len data\<close> in every use).\<close>

definition go_copy_at :: "'a list \<Rightarrow> nat \<Rightarrow> 'a list \<Rightarrow> 'a list" where
  "go_copy_at data i src = take i data @ go_copy (drop i data) src"

subsection \<open>encoding/hex\<close>

text \<open>\<open>fmt.Sprintf("%x", b)\<close> and \<open>hex.DecodeString\<close> of the Go standard library.\<close>

definition hexdigit :: "nat \<Rightarrow> char" where
  "hexdigit n = ''0123456789abcdef'' ! n"

definition hex_of_byte :: "byte \<Rightarrow> string" where
  "hex_of_byte b = [hexdigit (unat b div 16), hexdigit (unat b mod 16)]"

definition Sprintf_x :: "bytes \<Rightarrow> string" where
  "Sprintf_x bs = concat (map hex_of_byte bs)"

definition fromHexChar :: "char \<Rightarrow> nat option" where
  "fromHexChar c = (let n = (of_char c :: nat) in
     if 48 \<le> n \<and> n \<le> 57 then Some (n - 48)
     else if 97 \<le> n \<and> n \<le> 102 then Some (n - 97 + 10)
     else if 65 \<le> n \<and> n \<le> 70 then Some (n - 65 + 10)
     else None)"

fun DecodeString :: "string \<Rightarrow> error + bytes" where
  "DecodeString [] = Inr []"
| "DecodeString [p] =
     (case fromHexChar p of None \<Rightarrow> Inl (InvalidByteError p) | Some a \<Rightarrow> Inl ErrLength)"
| "DecodeString (p # q # rest) =
     (case fromHexChar p of
        None \<Rightarrow> Inl (InvalidByteError p)
      | Some a \<Rightarrow>
         (case fromHexChar q of
            None \<Rightarrow> Inl (InvalidByteError q)
          | Some b \<Rightarrow>
             (case DecodeString rest of
                Inl e \<Rightarrow> Inl e
              | Inr bs \<Rightarrow> Inr (of_nat (a * 16 + b) # bs))))"

text \<open>\<open>util.TrimHex\<close>: \<open>strings.TrimPrefix(hexStr, "0x")\<close>.\<close>

fun TrimHex :: "string \<Rightarrow> string" where
  "TrimHex (a # b # rest) = (if a = CHR ''0'' \<and> b = CHR ''x'' then rest else a # b # rest)"
| "TrimHex s = s"

text \<open>\<open>strings.HasPrefix\<close>.\<close>

definition HasPrefix :: "string \<Rightarrow> string \<Rightarrow> bool" where
  "HasPrefix s pre \<longleftrightarrow> take (length pre) s = pre"

subsection \<open>int64 and strconv\<close>

text \<open>An \<open>int64\<close> is an \<open>int\<close> in the range of the type; \<open>wrap64\<close> is the wrap-around of Go's
  arithmetic on it.\<close>

definition wrap64 :: "int \<Rightarrow> int" where
  "wrap64 x = (x + 2 ^ 63) mod 2 ^ 64 - 2 ^ 63"

text \<open>\<open>strconv.ParseUint(s, 10, 64)\<close> after its test for the empty string: the loop over the
  digits, with its two overflow tests. The \<open>uint64\<close> accumulator is an \<open>int\<close> that the tests
  keep below \<open>2 ^ 64\<close>.\<close>

fun ParseUint_loop :: "int \<Rightarrow> string \<Rightarrow> error + int" where
  "ParseUint_loop n [] = Inr n"
| "ParseUint_loop n (ch # rest) =
     (let d = (of_char ch :: int)
      in if \<not> (48 \<le> d \<and> d \<le> 57) then Inl ErrSyntax
         else if n \<ge> (2 ^ 64 - 1) div 10 + 1 then Inl ErrRange
         else if n * 10 + (d - 48) > 2 ^ 64 - 1 then Inl ErrRange
         else ParseUint_loop (n * 10 + (d - 48)) rest)"

definition ParseUint :: "string \<Rightarrow> error + int" where
  "ParseUint s = (if s = [] then Inl ErrSyntax else ParseUint_loop 0 s)"

text \<open>\<open>strconv.ParseInt(s, 10, 64)\<close>.\<close>

definition ParseInt :: "string \<Rightarrow> error + int" where
  "ParseInt s =
     (if s = [] then Inl ErrSyntax
      else
        (let neg = (hd s = CHR ''-'');
             s' = (if hd s = CHR ''+'' \<or> hd s = CHR ''-'' then tl s else s)
         in case ParseUint s' of
              Inl ErrRange \<Rightarrow> Inl ErrRange
            | Inl err \<Rightarrow> Inl err
            | Inr un \<Rightarrow>
               if \<not> neg \<and> un \<ge> 2 ^ 63 then Inl ErrRange
               else if neg \<and> un > 2 ^ 63 then Inl ErrRange
               else Inr (if neg then - un else un)))"

section \<open>Package signature\<close>

text \<open>
  The primitives of go-ethereum (\<open>crypto.Keccak256\<close>, \<open>crypto.Sign\<close>, \<open>crypto.SigToPub\<close>
  followed by \<open>crypto.FromECDSAPub\<close>, \<open>crypto.VerifySignature\<close>) and of iden3
  (\<open>poseidon.HashBytes\<close>, \<open>BigIntToHash(n).Bytes()\<close>) are outside the repository: every
  function below takes them as the record \<open>c\<close>, and every theorem holds for all of them.
\<close>

record crypto =
  Keccak256 :: "bytes \<Rightarrow> bytes"
  crypto_Sign :: "bytes \<Rightarrow> nat \<Rightarrow> error + bytes"
  SigToPub :: "bytes \<Rightarrow> bytes \<Rightarrow> error + bytes"
  VerifySignature :: "bytes \<Rightarrow> bytes \<Rightarrow> bytes \<Rightarrow> bool"
  poseidon_HashBytes :: "bytes \<Rightarrow> error + nat"
  BigIntToHash_Bytes :: "nat \<Rightarrow> bytes"

definition SignatureLength :: nat where "SignatureLength = 130"

text \<open>\<open>SigningPrefix = "\u0019Ethereum Signed Message:\n"\<close>, as the bytes of the string.\<close>

definition SigningPrefix :: bytes where
  "SigningPrefix = [0x19] @ bytes_of_string ''Ethereum Signed Message:'' @ [0x0A]"

text \<open>The verb \<open>%d\<close> of \<open>fmt\<close>, for a length and for an \<open>int64\<close>.\<close>

fun decimal :: "nat \<Rightarrow> string" where
  "decimal n = (if n < 10 then [hexdigit n] else decimal (n div 10) @ [hexdigit (n mod 10)])"

declare decimal.simps [simp del]

definition Sprintf_d :: "int \<Rightarrow> string" where
  "Sprintf_d i = (if i < 0 then CHR ''-'' # decimal (nat (- i)) else decimal (nat i))"

text \<open>The struct \<open>SignKeys\<close>, as far as the code below reads it: the scalar \<open>Private.D\<close>, a
  \<open>*big.Int\<close> that is \<open>nil\<close> before a key is loaded.\<close>

record SignKeys =
  Private_D :: "nat option"

definition HashRaw :: "crypto \<Rightarrow> bytes \<Rightarrow> bytes" where
  "HashRaw c data = Keccak256 c data"

text \<open>\<open>Hash\<close> writes \<open>SigningPrefix\<close>, the decimal length of the data and the data into a
  buffer (\<open>Hash_buf\<close>) and hashes the buffer.\<close>

definition Hash_buf :: "bytes \<Rightarrow> bytes" where
  "Hash_buf data = SigningPrefix @ bytes_of_string (decimal (length data)) @ data"

definition Hash :: "crypto \<Rightarrow> bytes \<Rightarrow> bytes" where
  "Hash c data = HashRaw c (Hash_buf data)"

definition HashPoseidon :: "crypto \<Rightarrow> bytes \<Rightarrow> bytes" where
  "HashPoseidon c input =
     (case poseidon_HashBytes c input of
        Inl err \<Rightarrow> []
      | Inr hashNum \<Rightarrow> BigIntToHash_Bytes c hashNum)"

definition Sign :: "crypto \<Rightarrow> SignKeys \<Rightarrow> bytes \<Rightarrow> error + string" where
  "Sign c k message =
     (case Private_D k of
        None \<Rightarrow> Inl (Errorf ''no private key available'')
      | Some d \<Rightarrow>
         (case crypto_Sign c (Hash c message) d of
            Inl err \<Rightarrow> Inl err
          | Inr signature \<Rightarrow> Inr (Sprintf_x signature)))"

text \<open>\<open>sig[64]\<close> is read after the length check and the decoding; the read out of range
  (a panic) is a branch of the model, and \<open>PubKeyFromSignature_decoded\<close> shows it dead.\<close>

definition PubKeyFromSignature :: "crypto \<Rightarrow> bytes \<Rightarrow> string \<Rightarrow> error + string" where
  "PubKeyFromSignature c msg sigHex =
     (if length (TrimHex sigHex) < SignatureLength \<or> length (TrimHex sigHex) > SignatureLength + 12
      then Inl (Errorf ''signature length not correct'')
      else
        (case DecodeString (TrimHex sigHex) of
           Inl err \<Rightarrow> Inl err
         | Inr sig \<Rightarrow>
            if length sig \<le> 64 then Inl (Panic ''index out of range'')
            else
              (let sig = (if sig ! 64 > 1 then sig[64 := sig ! 64 - 27] else sig)
               in if sig ! 64 > 1 then Inl (Errorf ''bad recover ID byte'')
                  else
                    (case SigToPub c (Hash c msg) sig of
                       Inl err \<Rightarrow> Inl err
                     | Inr pubKey \<Rightarrow> Inr (Sprintf_x pubKey)))))"

text \<open>The method \<open>(k *SignKeys) Verify\<close>; it never reads its receiver. \<open>signature[:64]\<close>
  panics on a shorter slice.\<close>

definition SignKeys_Verify :: "crypto \<Rightarrow> SignKeys \<Rightarrow> bytes \<Rightarrow> string \<Rightarrow> error + bool" where
  "SignKeys_Verify c k message signHex =
     (case PubKeyFromSignature c message (TrimHex signHex) of
        Inl err \<Rightarrow> Inl err
      | Inr pubHex \<Rightarrow>
         (case DecodeString signHex of
            Inl err \<Rightarrow> Inl err
          | Inr signature \<Rightarrow>
             (case DecodeString pubHex of
                Inl err \<Rightarrow> Inl err
              | Inr pub \<Rightarrow>
                 if length signature < 64 then Inl (Panic ''slice bounds out of range'')
                 else Inr (VerifySignature c pub (Hash c message) (take 64 signature)))))"

text \<open>The standalone \<open>Verify\<close>: \<open>sk := new(SignKeys)\<close>, then \<open>sk.Verify(message, signHex)\<close>.\<close>

definition Verify :: "crypto \<Rightarrow> bytes \<Rightarrow> string \<Rightarrow> string \<Rightarrow> error + bool" where
  "Verify c message signHex pubHex =
     (let sk = \<lparr>Private_D = None\<rparr> in SignKeys_Verify c sk message signHex)"

text \<open>
  The signature of an internal transaction in the words of the spec: "Internal tx
  signatures do NOT use this prefix; they sign the canonical encoding directly". It is
  \<open>Sign\<close> with \<open>HashRaw\<close> in the place of \<open>Hash\<close>, to be compared with \<open>Sign\<close>.
\<close>

definition Sign_spec :: "crypto \<Rightarrow> SignKeys \<Rightarrow> bytes \<Rightarrow> error + string" where
  "Sign_spec c k message =
     (case Private_D k of
        None \<Rightarrow> Inl (Errorf ''no private key available'')
      | Some d \<Rightarrow>
         (case crypto_Sign c (HashRaw c message) d of
            Inl err \<Rightarrow> Inl err
          | Inr signature \<Rightarrow> Inr (Sprintf_x signature)))"

text \<open>Stand-in primitives, to run the functions on concrete inputs: the hash of a message is
  32 copies of its length modulo 256, a signature is the digest followed by the recovery
  byte 0, and the key recovered from a signature is the signature.\<close>

definition example_crypto :: crypto where
  "example_crypto =
     \<lparr>Keccak256 = (\<lambda>data. replicate 32 (of_nat (length data))),
      crypto_Sign = (\<lambda>hash d. Inr (hash @ hash @ [0])),
      SigToPub = (\<lambda>hash sig. Inr sig),
      VerifySignature = (\<lambda>pub hash sig. True),
      poseidon_HashBytes = (\<lambda>input. Inr (length input)),
      BigIntToHash_Bytes = (\<lambda>n. replicate 32 (of_nat n))\<rparr>"

section \<open>KeyKeeper: the persisted process keys\<close>

text \<open>
  \<open>commitmentKeySize = encryptionKeySize = nacl.KeyLength\<close>; the persisted layout of 129
  bytes and the literal \<open>data[128]\<close> in \<open>Encode\<close> fix \<open>nacl.KeyLength = 32\<close>.
\<close>

definition KeyLength :: nat where "KeyLength = 32"
definition commitmentKeySize :: nat where "commitmentKeySize = KeyLength"
definition encryptionKeySize :: nat where "encryptionKeySize = KeyLength"

text \<open>The struct \<open>processKeys\<close>. Its four keys are arrays \<open>[32]byte\<close>: lists whose length the
  Go type fixes (\<open>wf_processKeys\<close>); \<open>index\<close> is an \<open>int8\<close>, a byte read by \<open>sint\<close>.\<close>

record processKeys =
  pubKey :: bytes
  privKey :: bytes
  revealKey :: bytes
  commitmentKey :: bytes
  index :: byte

definition wf_processKeys :: "processKeys \<Rightarrow> bool" where
  "wf_processKeys pk \<longleftrightarrow>
     length (pubKey pk) = encryptionKeySize \<and> length (privKey pk) = encryptionKeySize \<and>
     length (revealKey pk) = commitmentKeySize \<and> length (commitmentKey pk) = commitmentKeySize"

definition Encode :: "processKeys \<Rightarrow> bytes" where
  "Encode pk =
    (let data = replicate (commitmentKeySize * 2 + encryptionKeySize * 2 + 1) 0;
         data = go_copy_at data 0 (pubKey pk);
         data = go_copy_at data encryptionKeySize (privKey pk);
         i = encryptionKeySize * 2;
         data = go_copy_at data i (revealKey pk);
         i = i + commitmentKeySize;
         data = go_copy_at data i (commitmentKey pk)
     in data[128 := index pk])"

text \<open>\<open>Decode\<close> writes into its receiver; the model returns the updated receiver, or the
  error with the receiver untouched.\<close>

definition Decode :: "processKeys \<Rightarrow> bytes \<Rightarrow> error + processKeys" where
  "Decode pk data =
    (if length data < commitmentKeySize * 2 + encryptionKeySize * 2 + 1
     then Inl (Errorf ''cannot decode, data too small'')
     else
       (let i = encryptionKeySize * 2;
            i' = i + commitmentKeySize;
            i'' = i' + commitmentKeySize
        in Inr (pk\<lparr>pubKey := go_copy (pubKey pk) data,
                   privKey := go_copy (privKey pk) (drop encryptionKeySize data),
                   revealKey := go_copy (revealKey pk) (drop i data),
                   commitmentKey := go_copy (commitmentKey pk) (drop i' data),
                   index := data ! i''\<rparr>)))"

section \<open>The key-value database\<close>

text \<open>
  \<open>db.Database\<close> (Badger) is a list of key-value pairs with distinct keys. An operation on
  key \<open>k\<close> fails with an input/output error when the environment's \<open>fault k\<close> says so;
  otherwise \<open>Get\<close> fails on an absent key with \<open>ErrKeyNotFound\<close> and the other operations
  succeed. \<open>Has\<close> returns \<open>(bool, error)\<close>, \<open>Put\<close> and \<open>Del\<close> return the error and the new
  database. The iterator visits a snapshot of the pairs in the order of their keys.
\<close>

type_synonym 'k store = "('k \<times> bytes) list"

definition Storage_Get :: "('k \<Rightarrow> string option) \<Rightarrow> 'k store \<Rightarrow> 'k \<Rightarrow> error + bytes" where
  "Storage_Get fault db k =
     (case fault k of
        Some msg \<Rightarrow> Inl (ExternalError msg)
      | None \<Rightarrow> (case map_of db k of None \<Rightarrow> Inl ErrKeyNotFound | Some v \<Rightarrow> Inr v))"

definition Storage_Has :: "('k \<Rightarrow> string option) \<Rightarrow> 'k store \<Rightarrow> 'k \<Rightarrow> bool \<times> error option" where
  "Storage_Has fault db k =
     (case fault k of
        Some msg \<Rightarrow> (False, Some (ExternalError msg))
      | None \<Rightarrow> (map_of db k \<noteq> None, None))"

definition Storage_Put ::
  "('k \<Rightarrow> string option) \<Rightarrow> 'k store \<Rightarrow> 'k \<Rightarrow> bytes \<Rightarrow> error option \<times> 'k store" where
  "Storage_Put fault db k v =
     (case fault k of
        Some msg \<Rightarrow> (Some (ExternalError msg), db)
      | None \<Rightarrow> (None, AList.update k v db))"

definition Storage_Del ::
  "('k \<Rightarrow> string option) \<Rightarrow> 'k store \<Rightarrow> 'k \<Rightarrow> error option \<times> 'k store" where
  "Storage_Del fault db k =
     (case fault k of
        Some msg \<Rightarrow> (Some (ExternalError msg), db)
      | None \<Rightarrow> (None, AList.delete k db))"

definition Storage_iter :: "('k::linorder) store \<Rightarrow> ('k \<times> bytes) list" where
  "Storage_iter db = sort_key fst db"

section \<open>KeyKeeper\<close>

definition dbPrefixProcess :: string where "dbPrefixProcess = ''p_''"
definition dbPrefixBlock :: string where "dbPrefixBlock = ''b_''"

text \<open>\<open>types.Process\<close>, as far as the KeyKeeper and the Scrutinizer read it. The struct and
  its methods \<open>RequireKeys\<close> and \<open>IsEncrypted\<close> are not under src/: the two methods are
  fields here, given with the process.\<close>

record Process =
  RequireKeys :: bool
  IsEncrypted :: bool
  EncryptionPublicKeys :: "string list"
  CommitmentKeys :: "string list"
  EncryptionPrivateKeys :: "string list"
  StartBlock :: int
  NumberOfBlocks :: int

datatype TxType = TxAddProcessKeys | TxRevealProcessKeys

text \<open>\<open>types.AdminTx\<close>, with the fields the KeyKeeper fills.\<close>

record AdminTx =
  tx_Type :: TxType
  tx_KeyIndex :: int
  tx_Nonce :: string
  tx_ProcessID :: string
  tx_EncryptionPublicKey :: string
  tx_CommitmentKey :: string
  tx_EncryptionPrivateKey :: string
  tx_RevealKey :: string
  tx_Signature :: string

text \<open>
  What the KeyKeeper calls outside itself: the Vochain state (\<open>State.Process(pid, false)\<close>,
  the height of \<open>State.Header(committed)\<close> or \<open>nil\<close>), the amino codec on lists of process
  ids, \<open>json.Marshal\<close> on an \<open>AdminTx\<close>, \<open>SendTX\<close> (its error, or the code and data of its
  result), the draws of \<open>util.RandomHex(32)\<close>, the curve operation behind a key pair, and
  the faults of its database.
\<close>

record kk_env =
  State_Process :: "string \<Rightarrow> error + Process"
  State_Header :: "bool \<Rightarrow> int option"
  UnmarshalBinaryBare :: "bytes \<Rightarrow> error + string list"
  MarshalBinaryBare :: "string list \<Rightarrow> error + bytes"
  json_Marshal :: "AdminTx \<Rightarrow> error + bytes"
  SendTX :: "bytes \<Rightarrow> error + nat \<times> bytes"
  RandomHex :: "nat \<Rightarrow> string"
  derivePublic :: "bytes \<Rightarrow> bytes"
  db_fault :: "string \<Rightarrow> string option"

text \<open>
  The struct \<open>KeyKeeper\<close>. The two pools are Go maps, kept as association lists (a \<open>range\<close>
  over a map visits the entries in an order Go leaves open; the model visits them in list
  order). A value of \<open>keyPool\<close> is a pointer: \<open>None\<close> is \<open>nil\<close>. \<open>myIndex\<close> is an \<open>int8\<close>. Two
  fields belong to the world around the keeper: \<open>sent\<close>, the transactions handed to
  \<open>SendTX\<close> so far, and \<open>draws\<close>, the number of nonces drawn so far. The maps are allocated
  (\<open>Rollback\<close> has run once), as the source requires.
\<close>

record KeyKeeper =
  storage :: "string store"
  keyPool :: "(string \<times> processKeys option) list"
  blockPool :: "(string \<times> int) list"
  signer :: SignKeys
  myIndex :: byte
  sent :: "bytes list"
  draws :: nat

text \<open>\<open>(*big.Int).Bytes()\<close>: the big-endian bytes of the absolute value, without leading
  zeros.\<close>

fun big_Bytes :: "nat \<Rightarrow> bytes" where
  "big_Bytes n = (if n = 0 then [] else big_Bytes (n div 256) @ [of_nat (n mod 256)])"

declare big_Bytes.simps [simp del]

record KeyPair =
  Public :: bytes
  Private :: bytes

text \<open>
  Modelled from the spec: \<open>nacl.FromHex\<close> (the package crypto/nacl is not under src/). The
  spec: "Derive an X25519-style keypair from seed: privKey = seed, pubKey =
  derivePublic(seed)". The seed arrives as a hex string and is decoded first.
\<close>

definition nacl_FromHex :: "(bytes \<Rightarrow> bytes) \<Rightarrow> string \<Rightarrow> error + KeyPair" where
  "nacl_FromHex derive privHex =
     (case DecodeString privHex of
        Inl err \<Rightarrow> Inl err
      | Inr seed \<Rightarrow> Inr \<lparr>Public = derive seed, Private = seed\<rparr>)"

definition Rollback :: "KeyKeeper \<Rightarrow> KeyKeeper" where
  "Rollback k = k\<lparr>keyPool := [], blockPool := []\<rparr>"

text \<open>\<open>generateKeys\<close>. \<open>k.signer.Private.D.Bytes()\<close> panics on a \<open>nil\<close> scalar. The two
  Poseidon hashes are copied into zeroed arrays of \<open>commitmentKeySize\<close> bytes; the second
  hash is taken of the slice \<open>ckb\<close> the first one returned.\<close>

definition generateKeys :: "crypto \<Rightarrow> kk_env \<Rightarrow> KeyKeeper \<Rightarrow> string \<Rightarrow> error + processKeys" where
  "generateKeys c e k pid =
     (case DecodeString pid of
        Inl err \<Rightarrow> Inl err
      | Inr pb \<Rightarrow>
         (let pb = pb @ [myIndex k]
          in case Private_D (signer k) of
               None \<Rightarrow> Inl (Panic ''nil pointer dereference'')
             | Some d \<Rightarrow>
                (case nacl_FromHex (derivePublic e) (Sprintf_x (HashRaw c (big_Bytes d @ pb))) of
                   Inl err \<Rightarrow> Inl (Errorf ''cannot generate encryption key'')
                 | Inr ek \<Rightarrow>
                    (let ck = replicate commitmentKeySize 0;
                         ckb = HashPoseidon c (Private ek);
                         ck = go_copy ck ckb;
                         ckhash = replicate commitmentKeySize 0;
                         ckhash = go_copy ckhash (HashPoseidon c ckb)
                     in Inr \<lparr>pubKey = Public ek, privKey = Private ek, revealKey = ck,
                             commitmentKey = ckhash, index = myIndex k\<rparr>))))"

text \<open>\<open>signAndSendTx\<close>: the transaction is marshalled, signed with \<open>Sign\<close>, marshalled again
  with the signature and handed to \<open>SendTX\<close>.\<close>

definition signAndSendTx ::
  "crypto \<Rightarrow> kk_env \<Rightarrow> KeyKeeper \<Rightarrow> AdminTx \<Rightarrow> error option \<times> KeyKeeper" where
  "signAndSendTx c e k tx =
     (case json_Marshal e tx of
        Inl err \<Rightarrow> (Some err, k)
      | Inr txBytes \<Rightarrow>
         (case Sign c (signer k) txBytes of
            Inl err \<Rightarrow> (Some err, k)
          | Inr sg \<Rightarrow>
             (case json_Marshal e (tx\<lparr>tx_Signature := sg\<rparr>) of
                Inl err \<Rightarrow> (Some err, k)
              | Inr txBytes \<Rightarrow>
                 (let k = k\<lparr>sent := sent k @ [txBytes]\<rparr>
                  in case SendTX e txBytes of
                       Inl err \<Rightarrow> (Some err, k)
                     | Inr (code, data) \<Rightarrow>
                        if code \<noteq> 0 then (Some (Errorf ''error sending transaction''), k)
                        else (None, k)))))"

definition is_Panic :: "error option \<Rightarrow> bool" where
  "is_Panic err = (case err of Some (Panic msg) \<Rightarrow> True | _ \<Rightarrow> False)"

text \<open>\<open>publishKeys\<close>; reading \<open>pk.index\<close> through a \<open>nil\<close> pointer panics.\<close>

definition publishKeys ::
  "crypto \<Rightarrow> kk_env \<Rightarrow> KeyKeeper \<Rightarrow> processKeys option \<Rightarrow> string \<Rightarrow> error option \<times> KeyKeeper" where
  "publishKeys c e k pk pid =
     (case pk of
        None \<Rightarrow> (Some (Panic ''nil pointer dereference''), k)
      | Some pk \<Rightarrow>
         (let tx = \<lparr>tx_Type = TxAddProcessKeys, tx_KeyIndex = sint (index pk),
                    tx_Nonce = RandomHex e (draws k), tx_ProcessID = pid,
                    tx_EncryptionPublicKey = Sprintf_x (pubKey pk),
                    tx_CommitmentKey = Sprintf_x (commitmentKey pk),
                    tx_EncryptionPrivateKey = [], tx_RevealKey = [], tx_Signature = []\<rparr>;
              k = k\<lparr>draws := draws k + 1\<rparr>
          in case signAndSendTx c e k tx of
               (Some err, k) \<Rightarrow> (Some err, k)
             | (None, k) \<Rightarrow>
                (let dbKey = dbPrefixProcess @ pid
                 in case Storage_Has (db_fault e) (storage k) dbKey of
                      (exists, err) \<Rightarrow>
                        if exists \<or> err \<noteq> None
                        then (Some (Errorf ''keys for process already exist or error fetching storage''), k)
                        else
                          (let data = Encode pk
                           in case Storage_Put (db_fault e) (storage k) dbKey data of
                                (err, db) \<Rightarrow> (err, k\<lparr>storage := db\<rparr>)))))"

text \<open>\<open>var pk processKeys\<close>: the zero value.\<close>

definition zero_processKeys :: processKeys where
  "zero_processKeys =
     \<lparr>pubKey = replicate encryptionKeySize 0, privKey = replicate encryptionKeySize 0,
      revealKey = replicate commitmentKeySize 0, commitmentKey = replicate commitmentKeySize 0,
      index = 0\<rparr>"

definition revealKeys ::
  "crypto \<Rightarrow> kk_env \<Rightarrow> KeyKeeper \<Rightarrow> string \<Rightarrow> error option \<times> KeyKeeper" where
  "revealKeys c e k pid =
     (let dbKey = dbPrefixProcess @ pid
      in case Storage_Get (db_fault e) (storage k) dbKey of
           Inl err \<Rightarrow> (Some (Errorf ''cannot fetch reveal keys from storage''), k)
         | Inr data \<Rightarrow>
            if length data = 0 then (Some (Errorf ''no keys data found on storage''), k)
            else
              (case Decode zero_processKeys data of
                 Inl err \<Rightarrow> (Some (Errorf ''cannot unmarshal process keys''), k)
               | Inr pk \<Rightarrow>
                  if length (privKey pk) < 32 \<and> length (revealKey pk) < commitmentKeySize
                  then (Some (Errorf ''empty process keys''), k)
                  else
                    (let tx = \<lparr>tx_Type = TxRevealProcessKeys, tx_KeyIndex = sint (index pk),
                               tx_Nonce = RandomHex e (draws k), tx_ProcessID = pid,
                               tx_EncryptionPublicKey = [], tx_CommitmentKey = [],
                               tx_EncryptionPrivateKey = Sprintf_x (privKey pk),
                               tx_RevealKey = Sprintf_x (revealKey pk), tx_Signature = []\<rparr>;
                         k = k\<lparr>draws := draws k + 1\<rparr>
                     in case signAndSendTx c e k tx of
                          (Some err, k) \<Rightarrow> (Some err, k)
                        | (None, k) \<Rightarrow>
                           (case Storage_Del (db_fault e) (storage k) dbKey of
                              (err, db) \<Rightarrow> (err, k\<lparr>storage := db\<rparr>)))))"

text \<open>\<open>for _, p := range pids { if err := k.revealKeys(p); err != nil { log } }\<close>: the loop
  returns, beside the keeper, the process ids it called \<open>revealKeys\<close> on, each with the
  error it got.\<close>

fun revealKeys_each ::
  "crypto \<Rightarrow> kk_env \<Rightarrow> string list \<Rightarrow> KeyKeeper \<Rightarrow> (string \<times> error option) list \<times> KeyKeeper" where
  "revealKeys_each c e [] k = ([], k)"
| "revealKeys_each c e (p # pids) k =
     (case revealKeys c e k p of
        (err, k) \<Rightarrow>
          (case revealKeys_each c e pids k of
             (attempts, k) \<Rightarrow> ((p, err) # attempts, k)))"

text \<open>The loop of \<open>RevealUnpublished\<close> over the pairs of the iterator.\<close>

fun RevealUnpublished_loop ::
  "crypto \<Rightarrow> kk_env \<Rightarrow> int \<Rightarrow> (string \<times> bytes) list \<Rightarrow> KeyKeeper
     \<Rightarrow> (string \<times> error option) list \<times> KeyKeeper" where
  "RevealUnpublished_loop c e height [] k = ([], k)"
| "RevealUnpublished_loop c e height ((key, val) # rest) k =
     (if \<not> HasPrefix key dbPrefixBlock then RevealUnpublished_loop c e height rest k
      else
        (case ParseInt (drop (length dbPrefixBlock) key) of
           Inl err \<Rightarrow> RevealUnpublished_loop c e height rest k
         | Inr h \<Rightarrow>
            if height \<le> wrap64 (h + 2) then RevealUnpublished_loop c e height rest k
            else
              (case UnmarshalBinaryBare e val of
                 Inl err \<Rightarrow> RevealUnpublished_loop c e height rest k
               | Inr pids \<Rightarrow>
                  (case revealKeys_each c e pids k of
                     (attempts, k) \<Rightarrow>
                       (case RevealUnpublished_loop c e height rest k of
                          (attempts', k) \<Rightarrow> (attempts @ attempts', k))))))"

definition RevealUnpublished ::
  "crypto \<Rightarrow> kk_env \<Rightarrow> KeyKeeper \<Rightarrow> (string \<times> error option) list \<times> KeyKeeper" where
  "RevealUnpublished c e k =
     (case State_Header e True of
        None \<Rightarrow> ([], k)
      | Some height \<Rightarrow> RevealUnpublished_loop c e height (Storage_iter (storage k)) k)"

text \<open>
  The process ids of one pair of the iterator that \<open>RevealUnpublished\<close> is to reveal:
  \<open>bucket_pids\<close> with the test of the code on \<open>int64\<close>, \<open>bucket_pids_spec\<close> in the words of
  the spec, "all \<open>b_<h>\<close> keys with \<open>h + 2 < currentHeight\<close>", on the integers.
\<close>

definition bucket_pids :: "kk_env \<Rightarrow> int \<Rightarrow> string \<times> bytes \<Rightarrow> string list" where
  "bucket_pids e height kv =
     (if HasPrefix (fst kv) dbPrefixBlock
      then (case ParseInt (drop (length dbPrefixBlock) (fst kv)) of
              Inl err \<Rightarrow> []
            | Inr h \<Rightarrow>
               if height \<le> wrap64 (h + 2) then []
               else (case UnmarshalBinaryBare e (snd kv) of Inl err \<Rightarrow> [] | Inr pids \<Rightarrow> pids))
      else [])"

definition bucket_pids_spec :: "kk_env \<Rightarrow> int \<Rightarrow> string \<times> bytes \<Rightarrow> string list" where
  "bucket_pids_spec e currentHeight kv =
     (if HasPrefix (fst kv) dbPrefixBlock
      then (case ParseInt (drop (length dbPrefixBlock) (fst kv)) of
              Inl err \<Rightarrow> []
            | Inr h \<Rightarrow>
               if h + 2 < currentHeight
               then (case UnmarshalBinaryBare e (snd kv) of Inl err \<Rightarrow> [] | Inr pids \<Rightarrow> pids)
               else [])
      else [])"

text \<open>A pair of the iterator is in range when the height of its key, if it has one, leaves
  room for the \<open>+ 2\<close> of the test: \<open>h + 2\<close> does not exceed the largest \<open>int64\<close>.\<close>

definition bucket_in_range :: "string \<times> bytes \<Rightarrow> bool" where
  "bucket_in_range kv =
     (case ParseInt (drop (length dbPrefixBlock) (fst kv)) of
        Inl err \<Rightarrow> True
      | Inr h \<Rightarrow> h + 2 < 2 ^ 63)"

text \<open>\<open>OnProcess\<close>. The error of the result is a panic: an index out of range in the key
  lists of the process, or the one of \<open>generateKeys\<close>. When \<open>generateKeys\<close> returns an
  error, the assignment has already stored its \<open>nil\<close> result in \<open>keyPool\<close>.\<close>

definition OnProcess ::
  "crypto \<Rightarrow> kk_env \<Rightarrow> KeyKeeper \<Rightarrow> string \<Rightarrow> string \<Rightarrow> error option \<times> KeyKeeper" where
  "OnProcess c e k pid eid =
     (case State_Process e pid of
        Inl err \<Rightarrow> (None, k)
      | Inr p \<Rightarrow>
         if \<not> RequireKeys p then (None, k)
         else
           (let i = sint (myIndex k)
            in if i < 0 \<or> nat i \<ge> length (EncryptionPublicKeys p)
                  \<or> nat i \<ge> length (CommitmentKeys p)
               then (Some (Panic ''index out of range''), k)
               else if length (EncryptionPublicKeys p ! nat i)
                        + length (CommitmentKeys p ! nat i) > 0
               then (None, k)
               else if map_of (keyPool k) pid \<noteq> None then (None, k)
               else
                 (case generateKeys c e k pid of
                    Inl err \<Rightarrow>
                      if is_Panic (Some err) then (Some err, k)
                      else (None, k\<lparr>keyPool := AList.update pid None (keyPool k)\<rparr>)
                  | Inr pk \<Rightarrow>
                      (None, k\<lparr>keyPool := AList.update pid (Some pk) (keyPool k),
                                blockPool := AList.update pid
                                  (wrap64 (StartBlock p + NumberOfBlocks p)) (blockPool k)\<rparr>))))"

text \<open>\<open>OnCancel\<close>; \<open>State.Header(false).Height\<close> panics on a \<open>nil\<close> header.\<close>

definition OnCancel ::
  "crypto \<Rightarrow> kk_env \<Rightarrow> KeyKeeper \<Rightarrow> string \<Rightarrow> error option \<times> KeyKeeper" where
  "OnCancel c e k pid =
     (case State_Process e pid of
        Inl err \<Rightarrow> (None, k)
      | Inr p \<Rightarrow>
         if \<not> RequireKeys p then (None, k)
         else
           (case State_Header e False of
              None \<Rightarrow> (Some (Panic ''nil pointer dereference''), k)
            | Some height \<Rightarrow>
               (None, k\<lparr>blockPool := AList.update pid (wrap64 (height + 1)) (blockPool k)\<rparr>)))"

text \<open>The loop of \<open>scheduleRevealKeys\<close> over the entries of \<open>blockPool\<close>.\<close>

fun scheduleRevealKeys_loop :: "kk_env \<Rightarrow> (string \<times> int) list \<Rightarrow> KeyKeeper \<Rightarrow> KeyKeeper" where
  "scheduleRevealKeys_loop e [] k = k"
| "scheduleRevealKeys_loop e ((pid, height) # rest) k =
     (let pkey = dbPrefixBlock @ Sprintf_d height;
          stored =
            (if fst (Storage_Has (db_fault e) (storage k) pkey)
             then
               (case Storage_Get (db_fault e) (storage k) pkey of
                  Inl err \<Rightarrow> Inl err
                | Inr data \<Rightarrow>
                   (case UnmarshalBinaryBare e data of
                      Inl err \<Rightarrow> Inr []
                    | Inr pids \<Rightarrow> Inr pids))
             else Inr [])
      in case stored of
           Inl err \<Rightarrow> scheduleRevealKeys_loop e rest k
         | Inr pids \<Rightarrow>
            (case MarshalBinaryBare e (pids @ [pid]) of
               Inl err \<Rightarrow> scheduleRevealKeys_loop e rest k
             | Inr data \<Rightarrow>
                (case Storage_Put (db_fault e) (storage k) pkey data of
                   (Some err, db) \<Rightarrow> scheduleRevealKeys_loop e rest k
                 | (None, db) \<Rightarrow> scheduleRevealKeys_loop e rest (k\<lparr>storage := db\<rparr>))))"

definition scheduleRevealKeys :: "kk_env \<Rightarrow> KeyKeeper \<Rightarrow> KeyKeeper" where
  "scheduleRevealKeys e k = scheduleRevealKeys_loop e (blockPool k) k"

definition checkRevealProcess :: "crypto \<Rightarrow> kk_env \<Rightarrow> KeyKeeper \<Rightarrow> int \<Rightarrow> KeyKeeper" where
  "checkRevealProcess c e k height =
     (let pKey = dbPrefixBlock @ Sprintf_d height
      in case Storage_Has (db_fault e) (storage k) pKey of
           (has, err) \<Rightarrow>
             if \<not> has then k
             else if err \<noteq> None then k
             else
               (case Storage_Get (db_fault e) (storage k) pKey of
                  Inl err \<Rightarrow> k
                | Inr data \<Rightarrow>
                   (case UnmarshalBinaryBare e data of
                      Inl err \<Rightarrow> k
                    | Inr pids \<Rightarrow>
                       (case revealKeys_each c e pids k of
                          (attempts, k) \<Rightarrow>
                            (case Storage_Del (db_fault e) (storage k) pKey of
                               (err, db) \<Rightarrow> k\<lparr>storage := db\<rparr>)))))"

text \<open>The loop of \<open>publishPendingKeys\<close> over the entries of \<open>keyPool\<close>; an error of
  \<open>publishKeys\<close> is logged, a panic ends the loop.\<close>

fun publishPendingKeys_loop ::
  "crypto \<Rightarrow> kk_env \<Rightarrow> (string \<times> processKeys option) list \<Rightarrow> KeyKeeper
     \<Rightarrow> error option \<times> KeyKeeper" where
  "publishPendingKeys_loop c e [] k = (None, k)"
| "publishPendingKeys_loop c e ((pid, pk) # rest) k =
     (case publishKeys c e k pk pid of
        (err, k) \<Rightarrow>
          if is_Panic err then (err, k) else publishPendingKeys_loop c e rest k)"

definition publishPendingKeys :: "crypto \<Rightarrow> kk_env \<Rightarrow> KeyKeeper \<Rightarrow> error option \<times> KeyKeeper" where
  "publishPendingKeys c e k = publishPendingKeys_loop c e (keyPool k) k"

text \<open>
  \<open>Commit\<close> schedules the reveals, starts two goroutines, \<open>go k.checkRevealProcess(height)\<close>
  and \<open>go k.publishPendingKeys()\<close>, and returns without waiting for them. A \<open>goroutine\<close> is
  one that has been started and has not run yet; \<open>Commit\<close> returns the keeper as
  \<open>scheduleRevealKeys\<close> leaves it and the goroutines it has started.
\<close>

datatype goroutine = Go_checkRevealProcess int | Go_publishPendingKeys

definition Commit :: "kk_env \<Rightarrow> KeyKeeper \<Rightarrow> int \<Rightarrow> KeyKeeper \<times> goroutine list" where
  "Commit e k height =
     (let k = scheduleRevealKeys e k
      in (k, [Go_checkRevealProcess height, Go_publishPendingKeys]))"

text \<open>
  A goroutine works on the keeper as it is when the goroutine runs, not as it was when
  \<open>Commit\<close> started it: both are methods on the pointer \<open>k\<close>, and \<open>publishPendingKeys\<close>
  evaluates \<open>k.keyPool\<close> when its \<open>range\<close> begins. \<open>checkRevealProcess\<close> holds \<open>k.lock\<close> from
  its first line to its last; \<open>publishPendingKeys\<close> reads \<open>k.keyPool\<close> without the lock.
\<close>

definition run_goroutine ::
  "crypto \<Rightarrow> kk_env \<Rightarrow> KeyKeeper \<Rightarrow> goroutine \<Rightarrow> error option \<times> KeyKeeper" where
  "run_goroutine c e k g =
     (case g of
        Go_checkRevealProcess height \<Rightarrow> (None, checkRevealProcess c e k height)
      | Go_publishPendingKeys \<Rightarrow> publishPendingKeys c e k)"

text \<open>
  The keeper in its program. The Vochain state calls the four handlers the keeper has
  registered (\<open>rollback\<close>, \<open>addProcess\<close>, \<open>cancelProcess\<close>, \<open>commit\<close>), one call after the
  other; the Go scheduler decides when a goroutine that has been started runs. An \<open>event\<close>
  is one such step, and \<open>Run i\<close> runs the goroutine at position \<open>i\<close> of those waiting, from
  its first statement to its last. A schedule is a list of events. The program can also
  interleave a running goroutine with the handlers; those schedules are not among the
  lists of this model, so a statement about \<open>run_schedule\<close> is a statement about some of
  the schedules of the program. A panic, in a handler or in a goroutine, ends the
  program.
\<close>

datatype event =
  Ev_Rollback
| Ev_OnProcess string string
| Ev_OnCancel string
| Ev_Commit int
| Ev_Run nat

definition step ::
  "crypto \<Rightarrow> kk_env \<Rightarrow> KeyKeeper \<times> goroutine list \<Rightarrow> event
     \<Rightarrow> error + KeyKeeper \<times> goroutine list" where
  "step c e s ev =
     (case s of
        (k, waiting) \<Rightarrow>
          (case ev of
             Ev_Rollback \<Rightarrow> Inr (Rollback k, waiting)
           | Ev_OnProcess pid eid \<Rightarrow>
              (case OnProcess c e k pid eid of
                 (Some panic, k) \<Rightarrow> Inl panic
               | (None, k) \<Rightarrow> Inr (k, waiting))
           | Ev_OnCancel pid \<Rightarrow>
              (case OnCancel c e k pid of
                 (Some panic, k) \<Rightarrow> Inl panic
               | (None, k) \<Rightarrow> Inr (k, waiting))
           | Ev_Commit height \<Rightarrow>
              (case Commit e k height of
                 (k, started) \<Rightarrow> Inr (k, waiting @ started))
           | Ev_Run i \<Rightarrow>
              if i < length waiting
              then (case run_goroutine c e k (waiting ! i) of
                      (Some panic, k) \<Rightarrow> Inl panic
                    | (None, k) \<Rightarrow> Inr (k, take i waiting @ drop (Suc i) waiting))
              else Inr (k, waiting)))"


subsection \<open>A concrete keeper\<close>

text \<open>A small environment and keeper on which the functions are run: the chain knows no
  process and stands at height 10, the codec of a list of process ids is their
  concatenation, a marshalled transaction is its process id followed by its signature,
  \<open>SendTX\<close> accepts everything and the database never fails.\<close>

definition example_env :: kk_env where
  "example_env =
     \<lparr>State_Process = (\<lambda>pid. Inl (Errorf ''process not found'')),
      State_Header = (\<lambda>committed. Some 10),
      UnmarshalBinaryBare = (\<lambda>data. Inr [map (\<lambda>b. char_of (unat b)) data]),
      MarshalBinaryBare = (\<lambda>pids. Inr (bytes_of_string (concat pids))),
      json_Marshal = (\<lambda>tx. Inr (bytes_of_string (tx_ProcessID tx @ tx_Signature tx))),
      SendTX = (\<lambda>tx. Inr (0, [])),
      RandomHex = (\<lambda>n. ''00''),
      derivePublic = (\<lambda>seed. seed),
      db_fault = (\<lambda>key. None)\<rparr>"

definition example_keeper :: KeyKeeper where
  "example_keeper =
     \<lparr>storage = [], keyPool = [], blockPool = [],
      signer = \<lparr>Private_D = Some 258\<rparr>, myIndex = 1, sent = [], draws = 0\<rparr>"

definition example_keys :: processKeys where
  "example_keys =
     \<lparr>pubKey = replicate 32 4, privKey = replicate 32 4, revealKey = replicate 32 32,
      commitmentKey = replicate 32 32, index = 1\<rparr>"

definition example_tx :: AdminTx where
  "example_tx =
     \<lparr>tx_Type = TxAddProcessKeys, tx_KeyIndex = 1, tx_Nonce = ''00'', tx_ProcessID = ''ab'',
      tx_EncryptionPublicKey = [], tx_CommitmentKey = [], tx_EncryptionPrivateKey = [],
      tx_RevealKey = [], tx_Signature = []\<rparr>"

text \<open>A keeper whose database holds the keys of process \<open>ab\<close> and a reveal of \<open>ab\<close>
  scheduled for the last height an \<open>int64\<close> can hold.\<close>

definition overflow_keeper :: KeyKeeper where
  "overflow_keeper = example_keeper
     \<lparr>storage := [(''b_9223372036854775807'', bytes_of_string ''ab''),
                  (''p_ab'', Encode example_keys)]\<rparr>"





section \<open>Scrutinizer\<close>

text \<open>\<open>types.VotePackage\<close>, the plaintext of a vote: one option per question.\<close>

record VotePackageStruct =
  Votes :: "int list"

text \<open>A vote envelope, \<open>types.Vote\<close>, as far as the Scrutinizer reads it; \<open>ProcessID\<close> may be
  \<open>nil\<close>.\<close>

record Vote =
  ProcessID :: "bytes option"
  VotePackage :: bytes
  EncryptionKeyIndexes :: "int list"

text \<open>\<open>ProcessVotes\<close> is \<open>[][]uint32\<close>: counts indexed by question, then by option.\<close>

type_synonym ProcessVotes = "32 word list list"

text \<open>
  What the Scrutinizer calls outside vote.go: the Vochain state (\<open>Process\<close>, \<open>EnvelopeList\<close>
  from 0 with its limit, \<open>Envelope\<close>), its own \<open>isLiveResultsProcess\<close> and \<open>encode\<close>, the amino
  codec on \<open>ProcessVotes\<close>, \<open>nacl.DecodePrivate\<close> and the \<open>Decrypt\<close> of the key it returns,
  \<open>json.Unmarshal\<close> into a vote package, the constants \<open>MaxQuestions\<close>, \<open>MaxOptions\<close> and
  \<open>types.MaxKeyIndex\<close>, and the faults of its database. None of them is under src/; the
  theorems hold for all of them.
\<close>

record sc_env =
  VochainState_Process :: "bytes \<Rightarrow> error + Process"
  EnvelopeList :: "bytes \<Rightarrow> bytes list"
  Envelope :: "bytes \<Rightarrow> bytes \<Rightarrow> error + Vote"
  isLiveResultsProcess :: "bytes \<Rightarrow> error + bool"
  encode :: "string \<Rightarrow> bytes \<Rightarrow> bytes"
  Unmarshal_ProcessVotes :: "bytes \<Rightarrow> error + ProcessVotes"
  Marshal_ProcessVotes :: "ProcessVotes \<Rightarrow> error + bytes"
  DecodePrivate :: "string \<Rightarrow> error + bytes"
  Decrypt :: "bytes \<Rightarrow> bytes \<Rightarrow> error + bytes"
  json_Unmarshal :: "bytes \<Rightarrow> error + VotePackageStruct"
  MaxQuestions :: nat
  MaxOptions :: nat
  MaxKeyIndex :: nat
  sc_fault :: "bytes \<Rightarrow> string option"

text \<open>
  Modelled from the spec: \<open>emptyProcess\<close> (not under src/). The spec: "Questions are
  indexed 0..MaxQuestions-1; options 0..MaxOptions-1"; \<open>pruneVoteResult\<close> reads every cell
  of that range. A fresh tally is \<open>MaxQuestions\<close> rows of \<open>MaxOptions\<close> zero counts.
\<close>

definition emptyProcess :: "sc_env \<Rightarrow> ProcessVotes" where
  "emptyProcess e = replicate (MaxQuestions e) (replicate (MaxOptions e) 0)"

text \<open>The loop of \<open>unmarshalVote\<close>, \<open>for i := len(keys) - 1; i >= 0; i--\<close>: the counter of the
  model is \<open>i + 1\<close>.\<close>

fun unmarshalVote_loop :: "sc_env \<Rightarrow> string list \<Rightarrow> nat \<Rightarrow> bytes \<Rightarrow> error + bytes" where
  "unmarshalVote_loop e keys 0 rawVote = Inr rawVote"
| "unmarshalVote_loop e keys (Suc i) rawVote =
     (case DecodePrivate e (keys ! i) of
        Inl err \<Rightarrow> Inl (Errorf ''cannot create private key cipher'')
      | Inr priv \<Rightarrow>
         (case Decrypt e priv rawVote of
            Inl err \<Rightarrow> Inl (Errorf ''cannot decrypt vote with index key'')
          | Inr rawVote \<Rightarrow> unmarshalVote_loop e keys i rawVote))"

definition unmarshalVote :: "sc_env \<Rightarrow> bytes \<Rightarrow> string list \<Rightarrow> error + VotePackageStruct" where
  "unmarshalVote e votePackage keys =
     (let rawVote = go_copy (replicate (length votePackage) 0) votePackage
      in case (if length keys > 0 then unmarshalVote_loop e keys (length keys) rawVote
               else Inr rawVote) of
           Inl err \<Rightarrow> Inl err
         | Inr rawVote \<Rightarrow>
            (case json_Unmarshal e rawVote of
               Inl err \<Rightarrow> Inl (Errorf ''cannot unmarshal vote'')
             | Inr vote \<Rightarrow> Inr vote))"

text \<open>
  Decryption in the words of the spec, to be compared with \<open>unmarshalVote\<close>: \<open>decrypt_seq\<close>
  applies the keys of a list one after the other, the head of the list first;
  \<open>parse_plaintext\<close> parses the plaintext it is given.
\<close>

fun decrypt_seq :: "sc_env \<Rightarrow> string list \<Rightarrow> bytes \<Rightarrow> error + bytes" where
  "decrypt_seq e [] raw = Inr raw"
| "decrypt_seq e (key # keys) raw =
     (case DecodePrivate e key of
        Inl err \<Rightarrow> Inl (Errorf ''cannot create private key cipher'')
      | Inr priv \<Rightarrow>
         (case Decrypt e priv raw of
            Inl err \<Rightarrow> Inl (Errorf ''cannot decrypt vote with index key'')
          | Inr plain \<Rightarrow> decrypt_seq e keys plain))"

definition parse_plaintext :: "sc_env \<Rightarrow> error + bytes \<Rightarrow> error + VotePackageStruct" where
  "parse_plaintext e r =
     (case r of
        Inl err \<Rightarrow> Inl err
      | Inr plain \<Rightarrow>
         (case json_Unmarshal e plain of
            Inl err \<Rightarrow> Inl (Errorf ''cannot unmarshal vote'')
          | Inr vote \<Rightarrow> Inr vote))"

text \<open>
  The loop \<open>for question, opt := range vote.Votes\<close> of both tallies: an option above
  \<open>MaxOptions\<close> is skipped, every other one increments \<open>pv[question][opt]\<close>, a \<open>uint32\<close>.
  The two index reads panic out of range.
\<close>

fun tally_loop :: "nat \<Rightarrow> ProcessVotes \<Rightarrow> nat \<Rightarrow> int list \<Rightarrow> error + ProcessVotes" where
  "tally_loop maxOptions pv question [] = Inr pv"
| "tally_loop maxOptions pv question (opt # rest) =
     (if opt > int maxOptions then tally_loop maxOptions pv (Suc question) rest
      else if question \<ge> length pv then Inl (Panic ''index out of range'')
      else if opt < 0 \<or> nat opt \<ge> length (pv ! question) then Inl (Panic ''index out of range'')
      else tally_loop maxOptions
             (pv[question := (pv ! question)[nat opt := pv ! question ! nat opt + 1]])
             (Suc question) rest)"

text \<open>
  What a tally of one vote package has to look like. \<open>shaped\<close>: the counts are a table of
  \<open>mq\<close> questions with \<open>mo\<close> options each. \<open>counted q0 votes q opt\<close>: the package, whose first
  entry belongs to question \<open>q0\<close>, votes option \<open>opt\<close> on question \<open>q\<close>. \<open>tallied\<close>: the new
  table is the old one with every cell that the package votes for incremented (a
  \<open>uint32\<close> increment) and every other cell unchanged.
\<close>

definition shaped :: "nat \<Rightarrow> nat \<Rightarrow> ProcessVotes \<Rightarrow> bool" where
  "shaped mq mo pv \<longleftrightarrow> length pv = mq \<and> list_all (\<lambda>row. length row = mo) pv"

definition counted :: "nat \<Rightarrow> int list \<Rightarrow> nat \<Rightarrow> nat \<Rightarrow> bool" where
  "counted q0 votes q opt \<longleftrightarrow> q0 \<le> q \<and> q < q0 + length votes \<and> votes ! (q - q0) = int opt"

definition tallied ::
  "nat \<Rightarrow> nat \<Rightarrow> ProcessVotes \<Rightarrow> nat \<Rightarrow> int list \<Rightarrow> ProcessVotes \<Rightarrow> bool" where
  "tallied mq mo pv q0 votes pv' \<longleftrightarrow>
     shaped mq mo pv' \<and>
     list_all
       (\<lambda>q. list_all
               (\<lambda>opt. pv' ! q ! opt = pv ! q ! opt + (if counted q0 votes q opt then 1 else 0))
               [0..<mo])
       [0..<mq]"


text \<open>The Scrutinizer itself: its database.\<close>

record Scrutinizer =
  Storage :: "bytes store"

definition addLiveResultsVote ::
  "sc_env \<Rightarrow> Scrutinizer \<Rightarrow> Vote \<Rightarrow> error option \<times> Scrutinizer" where
  "addLiveResultsVote e s envelope =
     (case ProcessID envelope of
        None \<Rightarrow> (Some (Errorf ''cannot find process for envelope''), s)
      | Some pid \<Rightarrow>
         (case unmarshalVote e (VotePackage envelope) [] of
            Inl err \<Rightarrow> (Some err, s)
          | Inr vote \<Rightarrow>
             if length (Votes vote) > MaxQuestions e
             then (Some (Errorf ''too many questions on addVote''), s)
             else
               (case Storage_Get (sc_fault e) (Storage s) (encode e ''liveProcess'' pid) of
                  Inl err \<Rightarrow> (Some (Errorf ''error adding vote to process, skipping addVote''), s)
                | Inr process \<Rightarrow>
                   (case Unmarshal_ProcessVotes e process of
                      Inl err \<Rightarrow> (Some (Errorf ''cannot unmarshal vote''), s)
                    | Inr pv \<Rightarrow>
                       (case tally_loop (MaxOptions e) pv 0 (Votes vote) of
                          Inl panic \<Rightarrow> (Some panic, s)
                        | Inr pv \<Rightarrow>
                           (case Marshal_ProcessVotes e pv of
                              Inl err \<Rightarrow> (Some err, s)
                            | Inr process \<Rightarrow>
                               (case Storage_Put (sc_fault e) (Storage s)
                                       (encode e ''process'' pid) process of
                                  (err, db) \<Rightarrow> (err, s\<lparr>Storage := db\<rparr>))))))))"

text \<open>The first loop of \<open>pruneVoteResult\<close>: \<open>min\<close> runs down from \<open>MaxQuestions - 1\<close> to the
  last question with a count that is not zero, or to -1. \<open>prune_scan\<close> is its inner loop
  over \<open>j\<close> and returns the \<open>j\<close> it stops at.\<close>

function prune_scan :: "nat \<Rightarrow> ProcessVotes \<Rightarrow> nat \<Rightarrow> nat \<Rightarrow> error + nat" where
  "prune_scan maxOptions pvv m j =
     (if j < maxOptions
      then (if m \<ge> length pvv \<or> j \<ge> length (pvv ! m) then Inl (Panic ''index out of range'')
            else if pvv ! m ! j \<noteq> 0 then Inr j
            else prune_scan maxOptions pvv m (Suc j))
      else Inr j)"
  by pat_completeness auto
termination
  by (relation "measure (\<lambda>(maxOptions, pvv, m, j). maxOptions - j)") auto

declare prune_scan.simps [simp del]

fun prune_min :: "nat \<Rightarrow> ProcessVotes \<Rightarrow> nat \<Rightarrow> error + int" where
  "prune_min maxOptions pvv 0 = Inr (- 1)"
| "prune_min maxOptions pvv (Suc m) =
     (case prune_scan maxOptions pvv m 0 of
        Inl panic \<Rightarrow> Inl panic
      | Inr j \<Rightarrow> if j < maxOptions then Inr (int m) else prune_min maxOptions pvv m)"

text \<open>The second loop: for every \<open>i\<close> up to \<open>min\<close> the result is built anew, rows 0 to \<open>i\<close>,
  each cut after its last count that is not zero (\<open>prune_last\<close> returns \<open>j2 + 1\<close>).\<close>

fun prune_last :: "ProcessVotes \<Rightarrow> nat \<Rightarrow> nat \<Rightarrow> error + nat" where
  "prune_last pvv i2 0 = Inr 0"
| "prune_last pvv i2 (Suc j2) =
     (if i2 \<ge> length pvv \<or> j2 \<ge> length (pvv ! i2) then Inl (Panic ''index out of range'')
      else if pvv ! i2 ! j2 \<noteq> 0 then Inr (Suc j2)
      else prune_last pvv i2 j2)"

fun prune_rows :: "nat \<Rightarrow> ProcessVotes \<Rightarrow> nat list \<Rightarrow> error + ProcessVotes" where
  "prune_rows maxOptions pvv [] = Inr []"
| "prune_rows maxOptions pvv (i2 # rest) =
     (case prune_last pvv i2 maxOptions of
        Inl panic \<Rightarrow> Inl panic
      | Inr n \<Rightarrow>
         if i2 \<ge> length pvv then Inl (Panic ''index out of range'')
         else
           (case prune_rows maxOptions pvv rest of
              Inl panic \<Rightarrow> Inl panic
            | Inr rows \<Rightarrow> Inr (go_copy (replicate n 0) (pvv ! i2) # rows)))"

fun prune_outer :: "nat \<Rightarrow> ProcessVotes \<Rightarrow> nat list \<Rightarrow> ProcessVotes \<Rightarrow> error + ProcessVotes" where
  "prune_outer maxOptions pvv [] pvc = Inr pvc"
| "prune_outer maxOptions pvv (i # rest) pvc =
     (case prune_rows maxOptions pvv [0..<Suc i] of
        Inl panic \<Rightarrow> Inl panic
      | Inr rows \<Rightarrow> prune_outer maxOptions pvv rest rows)"

definition pruneVoteResult :: "sc_env \<Rightarrow> ProcessVotes \<Rightarrow> error + ProcessVotes" where
  "pruneVoteResult e pv =
     (case prune_min (MaxOptions e) pv (MaxQuestions e) of
        Inl panic \<Rightarrow> Inl panic
      | Inr min' \<Rightarrow> prune_outer (MaxOptions e) pv [0..<nat (min' + 1)] [])"

definition computeLiveResults :: "sc_env \<Rightarrow> Scrutinizer \<Rightarrow> bytes \<Rightarrow> error + ProcessVotes" where
  "computeLiveResults e s processID =
     (case Storage_Get (sc_fault e) (Storage s) (encode e ''liveProcess'' processID) of
        Inl err \<Rightarrow> Inl err
      | Inr pb \<Rightarrow>
         (case Unmarshal_ProcessVotes e pb of
            Inl err \<Rightarrow> Inl err
          | Inr pv \<Rightarrow> pruneVoteResult e pv))"

text \<open>The loop over \<open>v.EncryptionKeyIndexes\<close> in \<open>computeNonLiveResults\<close>: it stops with the
  error flag at an index from \<open>MaxKeyIndex\<close> on, and panics when it reads
  \<open>p.EncryptionPrivateKeys\<close> out of range.\<close>

fun collectKeys :: "sc_env \<Rightarrow> Process \<Rightarrow> int list \<Rightarrow> string list \<Rightarrow> error + bool \<times> string list" where
  "collectKeys e p [] keys = Inr (False, keys)"
| "collectKeys e p (k # ks) keys =
     (if k \<ge> int (MaxKeyIndex e) then Inr (True, keys)
      else if k < 0 \<or> nat k \<ge> length (EncryptionPrivateKeys p)
      then Inl (Panic ''index out of range'')
      else collectKeys e p ks (keys @ [EncryptionPrivateKeys p ! nat k]))"

text \<open>The body of the loop of \<open>computeNonLiveResults\<close> up to the vote package of one
  envelope.\<close>

definition envelopeVotePackage :: "sc_env \<Rightarrow> Process \<Rightarrow> Vote \<Rightarrow> error + VotePackageStruct" where
  "envelopeVotePackage e p v =
     (if IsEncrypted p
      then
        (if length (EncryptionPrivateKeys p) < length (EncryptionKeyIndexes v)
         then Inl (Errorf ''encryptionKeyIndexes has too many fields'')
         else
           (case collectKeys e p (EncryptionKeyIndexes v) [] of
              Inl panic \<Rightarrow> Inl panic
            | Inr (overflow, keys) \<Rightarrow>
               if length keys = 0 \<or> overflow
               then Inl (Errorf ''no keys provided or wrong index'')
               else unmarshalVote e (VotePackage v) keys))
      else unmarshalVote e (VotePackage v) [])"

fun computeNonLiveResults_loop ::
  "sc_env \<Rightarrow> bytes \<Rightarrow> Process \<Rightarrow> bytes list \<Rightarrow> ProcessVotes \<Rightarrow> nat \<Rightarrow> error + ProcessVotes \<times> nat" where
  "computeNonLiveResults_loop e processID p [] pv nvotes = Inr (pv, nvotes)"
| "computeNonLiveResults_loop e processID p (n # rest) pv nvotes =
     (case Envelope e processID n of
        Inl err \<Rightarrow> computeNonLiveResults_loop e processID p rest pv nvotes
      | Inr v \<Rightarrow>
         (case envelopeVotePackage e p v of
            Inl err \<Rightarrow>
              if is_Panic (Some err) then Inl err
              else computeNonLiveResults_loop e processID p rest pv nvotes
          | Inr vp \<Rightarrow>
             (case tally_loop (MaxOptions e) pv 0 (Votes vp) of
                Inl panic \<Rightarrow> Inl panic
              | Inr pv \<Rightarrow> computeNonLiveResults_loop e processID p rest pv (nvotes + 1))))"

definition computeNonLiveResults :: "sc_env \<Rightarrow> bytes \<Rightarrow> Process \<Rightarrow> error + ProcessVotes" where
  "computeNonLiveResults e processID p =
     (case computeNonLiveResults_loop e processID p (EnvelopeList e processID)
             (emptyProcess e) 0 of
        Inl panic \<Rightarrow> Inl panic
      | Inr (pv, nvotes) \<Rightarrow> pruneVoteResult e pv)"

definition ComputeResult :: "sc_env \<Rightarrow> Scrutinizer \<Rightarrow> bytes \<Rightarrow> error option \<times> Scrutinizer" where
  "ComputeResult e s processID =
     (case VochainState_Process e processID of
        Inl err \<Rightarrow> (Some err, s)
      | Inr p \<Rightarrow>
         (case Storage_Get (sc_fault e) (Storage s) (encode e ''results'' processID) of
            Inr found \<Rightarrow> (Some (Errorf ''process already computed''), s)
          | Inl err \<Rightarrow>
             if err \<noteq> ErrKeyNotFound then (Some err, s)
             else
               (case isLiveResultsProcess e processID of
                  Inl err \<Rightarrow> (Some err, s)
                | Inr isLive \<Rightarrow>
                   (case (if isLive
                          then (case computeLiveResults e s processID of
                                  Inl err \<Rightarrow> (Inl err, s)
                                | Inr pv \<Rightarrow>
                                   (case Storage_Del (sc_fault e) (Storage s)
                                           (encode e ''liveProcess'' processID) of
                                      (Some err, db) \<Rightarrow> (Inl err, s\<lparr>Storage := db\<rparr>)
                                    | (None, db) \<Rightarrow> (Inr pv, s\<lparr>Storage := db\<rparr>)))
                          else (case computeNonLiveResults e processID p of
                                  Inl err \<Rightarrow> (Inl err, s)
                                | Inr pv \<Rightarrow> (Inr pv, s))) of
                      (Inl err, s) \<Rightarrow> (Some err, s)
                    | (Inr pv, s) \<Rightarrow>
                       (case Marshal_ProcessVotes e pv of
                          Inl err \<Rightarrow> (Some err, s)
                        | Inr result \<Rightarrow>
                           (case Storage_Put (sc_fault e) (Storage s)
                                   (encode e ''results'' processID) result of
                              (err, db) \<Rightarrow> (err, s\<lparr>Storage := db\<rparr>)))))))"

subsection \<open>A concrete Scrutinizer\<close>

text \<open>
  A small environment on which the functions are run: two questions with three options,
  one envelope (nullifier 1) per process, a cipher whose ciphertext is the key followed
  by the plaintext, a vote package whose bytes are its votes, and a codec that reads six
  bytes as a table of two rows.
\<close>

definition example_process :: Process where
  "example_process =
     \<lparr>RequireKeys = True, IsEncrypted = True, EncryptionPublicKeys = [], CommitmentKeys = [],
      EncryptionPrivateKeys = [[], ''01'', ''02''], StartBlock = 0, NumberOfBlocks = 10\<rparr>"

definition example_envelope :: Vote where
  "example_envelope =
     \<lparr>ProcessID = Some [1], VotePackage = [2, 1, 1, 5], EncryptionKeyIndexes = [1, 2]\<rparr>"

definition example_plain_envelope :: Vote where
  "example_plain_envelope =
     \<lparr>ProcessID = Some [1], VotePackage = [1, 5], EncryptionKeyIndexes = []\<rparr>"


text \<open>An envelope in plain text whose second option is \<open>MaxOptions\<close> itself.\<close>

definition boundary_envelope :: Vote where
  "boundary_envelope =
     \<lparr>ProcessID = Some [1], VotePackage = [1, 3], EncryptionKeyIndexes = []\<rparr>"

definition example_sc_env :: sc_env where
  "example_sc_env =
     \<lparr>VochainState_Process = (\<lambda>pid. Inr example_process),
      EnvelopeList = (\<lambda>pid. [[1]]),
      Envelope = (\<lambda>pid nullifier.
        if nullifier = [1] then Inr example_envelope else Inl (Errorf ''envelope not found'')),
      isLiveResultsProcess = (\<lambda>pid. Inr False),
      encode = (\<lambda>t pid. bytes_of_string t @ [58] @ pid),
      Unmarshal_ProcessVotes = (\<lambda>data. Inr [map ucast (take 3 data), map ucast (drop 3 data)]),
      Marshal_ProcessVotes = (\<lambda>pv. Inr (map ucast (concat pv))),
      DecodePrivate = DecodeString,
      Decrypt = (\<lambda>priv msg.
        if priv \<noteq> [] \<and> take (length priv) msg = priv then Inr (drop (length priv) msg)
        else Inl (Errorf ''cannot decrypt'')),
      json_Unmarshal = (\<lambda>raw. Inr \<lparr>Votes = map uint raw\<rparr>),
      MaxQuestions = 2, MaxOptions = 3, MaxKeyIndex = 16,
      sc_fault = (\<lambda>key. None)\<rparr>"

definition example_scrutinizer :: Scrutinizer where
  "example_scrutinizer =
     \<lparr>Storage = [(bytes_of_string ''liveProcess'' @ [58, 1], [0, 0, 0, 0, 0, 0])]\<rparr>"

definition computed_scrutinizer :: Scrutinizer where
  "computed_scrutinizer =
     \<lparr>Storage = [(bytes_of_string ''results'' @ [58, 1], [0, 1])]\<rparr>"

section \<open>Theorems\<close>

subsection \<open>The builtin copy\<close>

lemma go_copy_full: "length dst \<le> length src \<Longrightarrow> go_copy dst src = take (length dst) src"
  by (simp add: go_copy_def Let_def min_def)

lemma go_copy_length: "length (go_copy dst src) = length dst"
  by (simp add: go_copy_def Let_def min_def)

subsection \<open>Hex strings\<close>

lemma DecodeString_length: "DecodeString s = Inr bs \<Longrightarrow> length s = 2 * length bs"
  by (induction s arbitrary: bs rule: DecodeString.induct)
     (auto split: option.splits sum.splits)

lemma DecodeString_no_panic: "DecodeString s \<noteq> Inl (Panic m)"
  by (induction s rule: DecodeString.induct) (auto split: option.splits sum.splits)

lemma hexdigit_inv: "n < 16 \<Longrightarrow> fromHexChar (hexdigit n) = Some n"
proof -
  assume "n < 16"
  then have "n = 0 \<or> n = 1 \<or> n = 2 \<or> n = 3 \<or> n = 4 \<or> n = 5 \<or> n = 6 \<or> n = 7 \<or> n = 8
      \<or> n = 9 \<or> n = 10 \<or> n = 11 \<or> n = 12 \<or> n = 13 \<or> n = 14 \<or> n = 15"
    by arith
  then show ?thesis
    by (elim disjE) (simp_all add: fromHexChar_def hexdigit_def)
qed

text \<open>Decoding the \<open>%x\<close> rendering of a byte slice gives the slice back.\<close>

lemma DecodeString_Sprintf_x: "DecodeString (Sprintf_x bs) = Inr bs"
proof (induction bs)
  case Nil
  show ?case by (simp add: Sprintf_x_def)
next
  case (Cons b bs)
  have "unat b < 256" using unsigned_less [of b, where 'a=nat] by simp
  then have d: "unat b div 16 < 16" by simp
  have m: "unat b mod 16 < 16" by simp
  from Cons show ?case
    by (simp add: Sprintf_x_def hex_of_byte_def hexdigit_inv [OF d] hexdigit_inv [OF m])
qed

subsection \<open>The recovery byte of a signature\<close>

text \<open>The two tests of \<open>sig[64]\<close> in \<open>PubKeyFromSignature\<close>, on bytes that wrap around: a byte
  passes both exactly when it is 0, 1, 27 or 28.\<close>

lemma recovery_byte_normalised:
  "(if (1::byte) < b then b - 27 else b) \<le> 1 \<longleftrightarrow> b \<in> {0, 1, 27, 28}"
  apply uint_arith
  apply simp
  apply arith
  done

lemma PubKeyFromSignature_decoded:
  assumes "SignatureLength \<le> length (TrimHex sigHex)"
    and "length (TrimHex sigHex) \<le> SignatureLength + 12"
    and "DecodeString (TrimHex sigHex) = Inr sig"
  shows "64 < length sig"
    and "PubKeyFromSignature c msg sigHex =
      (if sig ! 64 \<in> {0, 1, 27, 28}
       then (case SigToPub c (Hash c msg)
                    (sig[64 := (if 1 < sig ! 64 then sig ! 64 - 27 else sig ! 64)]) of
               Inl err \<Rightarrow> Inl err | Inr pub \<Rightarrow> Inr (Sprintf_x pub))
       else Inl (Errorf ''bad recover ID byte''))"
proof -
  from DecodeString_length [OF assms(3)] assms(1)
  show l: "64 < length sig" by (simp add: SignatureLength_def)
  let ?b = "sig ! 64"
  show "PubKeyFromSignature c msg sigHex =
      (if sig ! 64 \<in> {0, 1, 27, 28}
       then (case SigToPub c (Hash c msg)
                    (sig[64 := (if 1 < sig ! 64 then sig ! 64 - 27 else sig ! 64)]) of
               Inl err \<Rightarrow> Inl err | Inr pub \<Rightarrow> Inr (Sprintf_x pub))
       else Inl (Errorf ''bad recover ID byte''))"
  proof (cases "1 < ?b")
    case True
    with recovery_byte_normalised [of ?b]
    have "?b - 27 \<le> 1 \<longleftrightarrow> ?b \<in> {0, 1, 27, 28}" by simp
    with True l assms show ?thesis
      by (cases "sig ! 64 \<in> {0, 1, 27, 28}")
         (simp_all add: PubKeyFromSignature_def Let_def not_less [symmetric] del: insert_iff)
  next
    case False
    with recovery_byte_normalised [of ?b] have "?b \<in> {0, 1, 27, 28}"
      by (simp add: not_less del: insert_iff)
    with False l assms show ?thesis
      by (simp add: PubKeyFromSignature_def Let_def del: insert_iff)
  qed
qed

text \<open>
  Claim C6. For every message and every hex signature of valid length (130 to 142 hex
  digits once the prefix 0x is trimmed), \<open>PubKeyFromSignature\<close> returns a key only when
  the 65th byte of the decoded signature is 0, 1, 27 or 28; for every other value of that
  byte it returns the error "bad recover ID byte"; and for the four accepted values it
  hands the signature, with that byte brought to 0 or 1, to the recovery primitive.
\<close>

theorem PubKeyFromSignature_recovery_id:
  assumes "SignatureLength \<le> length (TrimHex sigHex)"
    and "length (TrimHex sigHex) \<le> SignatureLength + 12"
  shows "(\<forall>pubHex. PubKeyFromSignature c msg sigHex = Inr pubHex \<longrightarrow>
            (\<exists>sig. DecodeString (TrimHex sigHex) = Inr sig \<and> 64 < length sig
                  \<and> sig ! 64 \<in> {0, 1, 27, 28}))
       \<and> (\<forall>sig. DecodeString (TrimHex sigHex) = Inr sig \<longrightarrow> sig ! 64 \<notin> {0, 1, 27, 28} \<longrightarrow>
            PubKeyFromSignature c msg sigHex = Inl (Errorf ''bad recover ID byte''))
       \<and> (\<forall>sig. DecodeString (TrimHex sigHex) = Inr sig \<longrightarrow> sig ! 64 \<in> {0, 1, 27, 28} \<longrightarrow>
            64 < length sig \<and>
            PubKeyFromSignature c msg sigHex =
              (case SigToPub c (Hash c msg)
                      (sig[64 := (if 1 < sig ! 64 then sig ! 64 - 27 else sig ! 64)]) of
                 Inl err \<Rightarrow> Inl err | Inr pub \<Rightarrow> Inr (Sprintf_x pub)))"
proof (intro conjI allI impI)
  fix pubHex assume ok: "PubKeyFromSignature c msg sigHex = Inr pubHex"
  show "\<exists>sig. DecodeString (TrimHex sigHex) = Inr sig \<and> 64 < length sig
      \<and> sig ! 64 \<in> {0, 1, 27, 28}"
  proof (cases "DecodeString (TrimHex sigHex)")
    case (Inl e)
    with ok assms show ?thesis by (simp add: PubKeyFromSignature_def)
  next
    case (Inr sig)
    from PubKeyFromSignature_decoded(1) [OF assms Inr]
      PubKeyFromSignature_decoded(2) [OF assms Inr, of c msg] ok
    have "64 < length sig" and "sig ! 64 \<in> {0, 1, 27, 28}"
      by (simp_all del: insert_iff split: if_splits)
    with Inr show ?thesis by blast
  qed
next
  fix sig assume "DecodeString (TrimHex sigHex) = Inr sig" "sig ! 64 \<notin> {0, 1, 27, 28}"
  with PubKeyFromSignature_decoded(2) [OF assms, of sig c msg]
  show "PubKeyFromSignature c msg sigHex = Inl (Errorf ''bad recover ID byte'')" by simp
next
  fix sig assume a: "DecodeString (TrimHex sigHex) = Inr sig" "sig ! 64 \<in> {0, 1, 27, 28}"
  from PubKeyFromSignature_decoded(1) [OF assms a(1)] show "64 < length sig" by simp
  from PubKeyFromSignature_decoded(2) [OF assms a(1), of c msg] a(2)
  show "PubKeyFromSignature c msg sigHex =
              (case SigToPub c (Hash c msg)
                      (sig[64 := (if 1 < sig ! 64 then sig ! 64 - 27 else sig ! 64)]) of
                 Inl err \<Rightarrow> Inl err | Inr pub \<Rightarrow> Inr (Sprintf_x pub))" by simp
qed

text \<open>Two signatures of 130 hex digits: the one whose 65th byte is 29 is refused, the one
  whose 65th byte is 28 reaches the recovery with the byte set to 1.\<close>

theorem PubKeyFromSignature_recovery_id_witness:
  "SignatureLength \<le> length (TrimHex (replicate 128 CHR ''0'' @ ''1d''))
   \<and> length (TrimHex (replicate 128 CHR ''0'' @ ''1d'')) \<le> SignatureLength + 12
   \<and> DecodeString (TrimHex (replicate 128 CHR ''0'' @ ''1d'')) = Inr (replicate 64 0 @ [29])
   \<and> (replicate 64 0 @ [29 :: byte]) ! 64 \<notin> {0, 1, 27, 28}
   \<and> PubKeyFromSignature example_crypto [] (replicate 128 CHR ''0'' @ ''1d'')
       = Inl (Errorf ''bad recover ID byte'')
   \<and> SignatureLength \<le> length (TrimHex (replicate 128 CHR ''0'' @ ''1c''))
   \<and> length (TrimHex (replicate 128 CHR ''0'' @ ''1c'')) \<le> SignatureLength + 12
   \<and> DecodeString (TrimHex (replicate 128 CHR ''0'' @ ''1c'')) = Inr (replicate 64 0 @ [28])
   \<and> (replicate 64 0 @ [28 :: byte]) ! 64 \<in> {0, 1, 27, 28}
   \<and> PubKeyFromSignature example_crypto [] (replicate 128 CHR ''0'' @ ''1c'')
       = Inr (Sprintf_x (replicate 64 0 @ [1]))"
proof -
  let ?s = "replicate 128 CHR ''0'' @ ''1d''"
  let ?t = "replicate 128 CHR ''0'' @ ''1c''"
  have t: "TrimHex ?s = ?s" "TrimHex ?t = ?t" by code_simp+
  have l1: "SignatureLength \<le> length (TrimHex ?s)"
    and l2: "length (TrimHex ?s) \<le> SignatureLength + 12"
    and m1: "SignatureLength \<le> length (TrimHex ?t)"
    and m2: "length (TrimHex ?t) \<le> SignatureLength + 12"
    unfolding t by (simp_all add: SignatureLength_def)
  have d: "DecodeString (TrimHex ?s) = Inr (replicate 64 0 @ [29])"
    by code_simp
  have d': "DecodeString (TrimHex ?t) = Inr (replicate 64 0 @ [28])"
    by code_simp
  have b: "(replicate 64 0 @ [29 :: byte]) ! 64 \<notin> {0, 1, 27, 28}"
    by (simp add: nth_append)
  have b': "(replicate 64 0 @ [28 :: byte]) ! 64 \<in> {0, 1, 27, 28}"
    by (simp add: nth_append)
  have n: "(replicate 64 0 @ [28 :: byte]) ! 64 = 28"
    by (simp add: nth_append)
  have u: "(replicate 64 0 @ [28 :: byte])[64 := 1] = replicate 64 0 @ [1]"
    by (simp add: list_update_append)
  from PubKeyFromSignature_recovery_id [OF l1 l2, of example_crypto "[]"] d b
  have r: "PubKeyFromSignature example_crypto [] ?s = Inl (Errorf ''bad recover ID byte'')"
    by blast
  from PubKeyFromSignature_recovery_id [OF m1 m2, of example_crypto "[]"] d' b'
  have "PubKeyFromSignature example_crypto [] ?t =
      (case SigToPub example_crypto (Hash example_crypto [])
              ((replicate 64 0 @ [28])[64 := (if 1 < (replicate 64 0 @ [28 :: byte]) ! 64
                 then (replicate 64 0 @ [28]) ! 64 - 27 else (replicate 64 0 @ [28]) ! 64)]) of
         Inl err \<Rightarrow> Inl err | Inr pub \<Rightarrow> Inr (Sprintf_x pub))"
    by blast
  then have a: "PubKeyFromSignature example_crypto [] ?t = Inr (Sprintf_x (replicate 64 0 @ [1]))"
    by (simp add: n u example_crypto_def)
  from l1 l2 d b r m1 m2 d' b' a show ?thesis by blast
qed

subsection \<open>The standalone Verify\<close>

text \<open>
  Claim C9. The result of the standalone \<open>Verify(message, signHex, pubHex)\<close> does not
  depend on \<open>pubHex\<close>: for every message, every signature and any two public-key
  strings the results agree, whatever the primitives are. The function hands \<open>message\<close>
  and \<open>signHex\<close> to the method \<open>SignKeys.Verify\<close>, which checks the signature against
  the key it recovers from that same signature; \<open>pubHex\<close> is never compared with it.
\<close>

theorem Verify_ignores_pubHex:
  "Verify c message signHex p1 = Verify c message signHex p2
   \<and> Verify c message signHex p1 = SignKeys_Verify c \<lparr>Private_D = None\<rparr> message signHex"
  by (simp add: Verify_def)

text \<open>On the stand-in primitives a well-formed signature verifies beside any \<open>pubHex\<close>.\<close>

lemma Verify_example_any_pubHex:
  "Verify example_crypto [] (replicate 128 CHR ''0'' @ ''1b'') pubHex = Inr True"
proof -
  have "SignKeys_Verify example_crypto \<lparr>Private_D = None\<rparr> [] (replicate 128 CHR ''0'' @ ''1b'')
      = Inr True"
    by code_simp
  then show ?thesis by (simp add: Verify_def)
qed

subsection \<open>Encode and Decode of processKeys\<close>

lemma replicate_129:
  "replicate 129 (0::byte) =
     replicate 32 0 @ replicate 32 0 @ replicate 32 0 @ replicate 32 0 @ [0]"
proof -
  have "replicate (32 + (32 + (32 + (32 + 1)))) (0::byte) =
     replicate 32 0 @ replicate 32 0 @ replicate 32 0 @ replicate 32 0 @ [0]"
    by (simp only: replicate_add) simp
  then show ?thesis by simp
qed

lemma wf_processKeys_lengths:
  assumes "wf_processKeys pk"
  shows "length (pubKey pk) = 32" "length (privKey pk) = 32"
    "length (revealKey pk) = 32" "length (commitmentKey pk) = 32"
  using assms
  by (simp_all add: wf_processKeys_def encryptionKeySize_def commitmentKeySize_def KeyLength_def)

lemma Encode_layout:
  assumes "wf_processKeys pk"
  shows "Encode pk = pubKey pk @ privKey pk @ revealKey pk @ commitmentKey pk @ [index pk]"
  unfolding Encode_def Let_def go_copy_at_def go_copy_def
    encryptionKeySize_def commitmentKeySize_def KeyLength_def
  using wf_processKeys_lengths [OF assms]
  by (simp add: replicate_129 list_update_append nth_append)

lemma Decode_Encode:
  assumes "wf_processKeys pk" "wf_processKeys recv"
  shows "Decode recv (Encode pk) = Inr pk"
proof -
  note l = wf_processKeys_lengths [OF assms(1)] wf_processKeys_lengths [OF assms(2)]
  show ?thesis
    unfolding Decode_def Let_def Encode_layout [OF assms(1)]
      encryptionKeySize_def commitmentKeySize_def KeyLength_def
    using l by (simp add: go_copy_full nth_append)
qed

lemma Decode_error_iff: "(\<exists>e. Decode recv data = Inl e) \<longleftrightarrow> length data < 129"
  by (simp add: Decode_def Let_def encryptionKeySize_def commitmentKeySize_def KeyLength_def)

lemma Decode_wf:
  assumes "wf_processKeys recv" "Decode recv data = Inr pk"
  shows "wf_processKeys pk"
  using assms
  by (auto simp: Decode_def Let_def wf_processKeys_def go_copy_length split: if_splits)

text \<open>
  Claim C8. For every \<open>processKeys\<close> value \<open>pk\<close> (its four keys being 32-byte arrays),
  \<open>Encode pk\<close> is exactly 129 bytes, laid out as pubKey, privKey, revealKey, commitmentKey
  (32 bytes each) and the index byte; decoding it into any receiver gives back \<open>pk\<close>; and
  \<open>Decode\<close> returns an error exactly when its input is shorter than 129 bytes.
\<close>

theorem processKeys_roundtrip:
  assumes "wf_processKeys pk" and "wf_processKeys recv"
  shows "length (Encode pk) = 129
       \<and> Encode pk = pubKey pk @ privKey pk @ revealKey pk @ commitmentKey pk @ [index pk]
       \<and> Decode recv (Encode pk) = Inr pk
       \<and> ((\<exists>e. Decode recv data = Inl e) \<longleftrightarrow> length data < 129)"
proof (intro conjI)
  show "Encode pk = pubKey pk @ privKey pk @ revealKey pk @ commitmentKey pk @ [index pk]"
    by (rule Encode_layout [OF assms(1)])
  then show "length (Encode pk) = 129"
    using wf_processKeys_lengths [OF assms(1)] by simp
  show "Decode recv (Encode pk) = Inr pk"
    by (rule Decode_Encode [OF assms])
  show "(\<exists>e. Decode recv data = Inl e) \<longleftrightarrow> length data < 129"
    by (rule Decode_error_iff)
qed

theorem processKeys_roundtrip_witness:
  "wf_processKeys \<lparr>pubKey = replicate 32 1, privKey = replicate 32 2,
       revealKey = replicate 32 3, commitmentKey = replicate 32 4, index = 5\<rparr>
   \<and> wf_processKeys \<lparr>pubKey = replicate 32 0, privKey = replicate 32 0,
       revealKey = replicate 32 0, commitmentKey = replicate 32 0, index = 0\<rparr>
   \<and> length (Encode \<lparr>pubKey = replicate 32 1, privKey = replicate 32 2,
       revealKey = replicate 32 3, commitmentKey = replicate 32 4, index = 5\<rparr>) = 129
   \<and> Decode \<lparr>pubKey = replicate 32 0, privKey = replicate 32 0,
         revealKey = replicate 32 0, commitmentKey = replicate 32 0, index = 0\<rparr>
        (Encode \<lparr>pubKey = replicate 32 1, privKey = replicate 32 2,
         revealKey = replicate 32 3, commitmentKey = replicate 32 4, index = 5\<rparr>)
      = Inr \<lparr>pubKey = replicate 32 1, privKey = replicate 32 2,
         revealKey = replicate 32 3, commitmentKey = replicate 32 4, index = 5\<rparr>
   \<and> (\<exists>e. Decode \<lparr>pubKey = replicate 32 0, privKey = replicate 32 0,
         revealKey = replicate 32 0, commitmentKey = replicate 32 0, index = 0\<rparr>
        (replicate 128 7) = Inl e)"
proof -
  let ?p = "\<lparr>pubKey = replicate 32 1, privKey = replicate 32 2,
       revealKey = replicate 32 3, commitmentKey = replicate 32 4, index = 5\<rparr> :: processKeys"
  let ?r = "\<lparr>pubKey = replicate 32 0, privKey = replicate 32 0,
       revealKey = replicate 32 0, commitmentKey = replicate 32 0, index = 0\<rparr> :: processKeys"
  have w: "wf_processKeys ?p" and w0: "wf_processKeys ?r"
    by (simp_all add: wf_processKeys_def encryptionKeySize_def commitmentKeySize_def KeyLength_def)
  have short: "length (replicate 128 (7::byte)) < 129"
    by simp
  from processKeys_roundtrip [OF w w0, of "replicate 128 7"] w w0 short
  show ?thesis by blast
qed

subsection \<open>The keys of a process\<close>

lemma go_copy_same: "length src = length dst \<Longrightarrow> go_copy dst src = src"
  by (simp add: go_copy_def Let_def)

text \<open>
  Claim C1. For every process id and keeper index, the keys that \<open>generateKeys\<close> returns
  satisfy the derivation chain: the private key is the Keccak-256 hash of the bytes of
  the keeper's private scalar, followed by the bytes of the process id and the index
  byte; the reveal key is \<open>HashPoseidon\<close> of the private key; the commitment key is
  \<open>HashPoseidon\<close> of the reveal key. The two Poseidon hashes are taken to be 32 bytes long,
  as the hash type of the library makes them: the code copies them into 32-byte arrays.
\<close>

theorem generateKeys_derivation_chain:
  assumes "generateKeys c e k pid = Inr pk"
    and "length (HashPoseidon c (privKey pk)) = commitmentKeySize"
    and "length (HashPoseidon c (HashPoseidon c (privKey pk))) = commitmentKeySize"
  shows "\<exists>pidBytes d. DecodeString pid = Inr pidBytes \<and> Private_D (signer k) = Some d
       \<and> privKey pk = Keccak256 c (big_Bytes d @ pidBytes @ [myIndex k])
       \<and> revealKey pk = HashPoseidon c (privKey pk)
       \<and> commitmentKey pk = HashPoseidon c (revealKey pk)
       \<and> index pk = myIndex k"
  using assms
  by (auto simp: generateKeys_def nacl_FromHex_def DecodeString_Sprintf_x HashRaw_def Let_def
      go_copy_same split: sum.splits option.splits)

theorem generateKeys_derivation_chain_witness:
  "generateKeys example_crypto example_env example_keeper ''ab'' = Inr example_keys
   \<and> length (HashPoseidon example_crypto (privKey example_keys)) = commitmentKeySize
   \<and> length (HashPoseidon example_crypto (HashPoseidon example_crypto (privKey example_keys)))
       = commitmentKeySize
   \<and> privKey example_keys = Keccak256 example_crypto (big_Bytes 258 @ [0xab] @ [1])
   \<and> revealKey example_keys = HashPoseidon example_crypto (privKey example_keys)
   \<and> commitmentKey example_keys = HashPoseidon example_crypto (revealKey example_keys)"
proof -
  have g: "generateKeys example_crypto example_env example_keeper ''ab'' = Inr example_keys"
    by code_simp
  have h1: "length (HashPoseidon example_crypto (privKey example_keys)) = commitmentKeySize"
    by code_simp
  have h2: "length (HashPoseidon example_crypto (HashPoseidon example_crypto (privKey example_keys)))
      = commitmentKeySize"
    by code_simp
  have d: "DecodeString ''ab'' = Inr [0xab]" by code_simp
  have s: "Private_D (signer example_keeper) = Some 258" "myIndex example_keeper = 1"
    by (simp_all add: example_keeper_def)
  from generateKeys_derivation_chain [OF g h1 h2] d s
  have "privKey example_keys = Keccak256 example_crypto (big_Bytes 258 @ [0xab] @ [1])
   \<and> revealKey example_keys = HashPoseidon example_crypto (privKey example_keys)
   \<and> commitmentKey example_keys = HashPoseidon example_crypto (revealKey example_keys)"
    by auto
  with g h1 h2 show ?thesis by blast
qed

subsection \<open>Decryption order\<close>

lemma unmarshalVote_loop_rev:
  "n \<le> length keys \<Longrightarrow> unmarshalVote_loop e keys n raw = decrypt_seq e (rev (take n keys)) raw"
proof (induction n arbitrary: raw)
  case 0
  show ?case by simp
next
  case (Suc i)
  then have "i < length keys" by simp
  then have "rev (take (Suc i) keys) = keys ! i # rev (take i keys)"
    by (simp add: take_Suc_conv_app_nth)
  with Suc show ?case
    by (simp split: sum.splits)
qed

lemma unmarshalVote_reverse:
  "unmarshalVote e votePackage keys = parse_plaintext e (decrypt_seq e (rev keys) votePackage)"
  by (cases keys) (simp_all add: unmarshalVote_def parse_plaintext_def go_copy_same
      unmarshalVote_loop_rev Let_def del: unmarshalVote_loop.simps)

lemma collectKeys_valid:
  assumes "\<forall>k\<in>set ks. 0 \<le> k \<and> k < int (MaxKeyIndex e) \<and> nat k < length (EncryptionPrivateKeys p)"
  shows "collectKeys e p ks keys = Inr (False, keys @ map (\<lambda>k. EncryptionPrivateKeys p ! nat k) ks)"
  using assms by (induction ks arbitrary: keys) auto

lemma decrypt_seq_not_panic: "decrypt_seq e keys raw = Inl err \<Longrightarrow> \<not> is_Panic (Some err)"
  by (induction keys arbitrary: raw) (auto simp: is_Panic_def split: sum.splits)

lemma parse_plaintext_not_panic:
  "parse_plaintext e (decrypt_seq e keys raw) = Inl err \<Longrightarrow> \<not> is_Panic (Some err)"
  using decrypt_seq_not_panic [of e keys raw]
  by (auto simp: parse_plaintext_def is_Panic_def split: sum.splits)

text \<open>
  Claim C3. For every list of nullifiers and every envelope of an encrypted process whose
  \<open>EncryptionKeyIndexes\<close> name the keys k1, ..., kn in the order they were used to
  encrypt (each index below \<open>MaxKeyIndex\<close> and inside \<open>EncryptionPrivateKeys\<close>), the
  Scrutinizer decrypts the vote package with the private keys of these indexes in the
  reverse order, kn first and k1 last, and parses the plaintext after the last
  decryption; the step of \<open>computeNonLiveResults\<close> for that envelope tallies the package
  obtained this way, whatever nullifiers follow.
\<close>

theorem scrutinizer_decrypts_in_reverse:
  assumes "IsEncrypted p"
    and "Envelope e processID n = Inr v"
    and "EncryptionKeyIndexes v \<noteq> []"
    and "length (EncryptionKeyIndexes v) \<le> length (EncryptionPrivateKeys p)"
    and "\<forall>k\<in>set (EncryptionKeyIndexes v).
           0 \<le> k \<and> k < int (MaxKeyIndex e) \<and> nat k < length (EncryptionPrivateKeys p)"
  shows "envelopeVotePackage e p v =
           parse_plaintext e
             (decrypt_seq e
                (rev (map (\<lambda>k. EncryptionPrivateKeys p ! nat k) (EncryptionKeyIndexes v)))
                (VotePackage v))
       \<and> computeNonLiveResults_loop e processID p (n # rest) pv nvotes =
           (case parse_plaintext e
                   (decrypt_seq e
                      (rev (map (\<lambda>k. EncryptionPrivateKeys p ! nat k) (EncryptionKeyIndexes v)))
                      (VotePackage v)) of
              Inl err \<Rightarrow> computeNonLiveResults_loop e processID p rest pv nvotes
            | Inr vp \<Rightarrow>
               (case tally_loop (MaxOptions e) pv 0 (Votes vp) of
                  Inl panic \<Rightarrow> Inl panic
                | Inr pv' \<Rightarrow> computeNonLiveResults_loop e processID p rest pv' (nvotes + 1)))"
proof -
  let ?keys = "map (\<lambda>k. EncryptionPrivateKeys p ! nat k) (EncryptionKeyIndexes v)"
  from assms(1,3,4,5)
  have env: "envelopeVotePackage e p v = parse_plaintext e (decrypt_seq e (rev ?keys) (VotePackage v))"
    by (simp add: envelopeVotePackage_def collectKeys_valid unmarshalVote_reverse)
  show ?thesis
    using assms(2) parse_plaintext_not_panic [of e "rev ?keys" "VotePackage v"]
    by (auto simp: env split: sum.splits)
qed

theorem scrutinizer_decrypts_in_reverse_witness:
  "IsEncrypted example_process
   \<and> Envelope example_sc_env [1] [1] = Inr example_envelope
   \<and> EncryptionKeyIndexes example_envelope = [1, 2]
   \<and> map (\<lambda>k. EncryptionPrivateKeys example_process ! nat k) [1, 2] = [''01'', ''02'']
   \<and> decrypt_seq example_sc_env [''02'', ''01''] (VotePackage example_envelope) = Inr [1, 5]
   \<and> envelopeVotePackage example_sc_env example_process example_envelope = Inr \<lparr>Votes = [1, 5]\<rparr>
   \<and> computeNonLiveResults_loop example_sc_env [1] example_process [[1]] [[0, 0, 0], [0, 0, 0]] 0
       = Inr ([[0, 1, 0], [0, 0, 0]], 1)"
proof -
  have a1: "IsEncrypted example_process" by (simp add: example_process_def)
  have a2: "Envelope example_sc_env [1] [1] = Inr example_envelope" by (simp add: example_sc_env_def)
  have a3: "EncryptionKeyIndexes example_envelope \<noteq> []" by (simp add: example_envelope_def)
  have a4: "length (EncryptionKeyIndexes example_envelope)
      \<le> length (EncryptionPrivateKeys example_process)"
    by (simp add: example_envelope_def example_process_def)
  have a5: "\<forall>k\<in>set (EncryptionKeyIndexes example_envelope).
      0 \<le> k \<and> k < int (MaxKeyIndex example_sc_env)
      \<and> nat k < length (EncryptionPrivateKeys example_process)"
    by (simp add: example_envelope_def example_process_def example_sc_env_def)
  have ix: "EncryptionKeyIndexes example_envelope = [1, 2]" by (simp add: example_envelope_def)
  have ks: "map (\<lambda>k. EncryptionPrivateKeys example_process ! nat k) [1, 2] = [''01'', ''02'']"
    by (simp add: example_process_def)
  have d: "decrypt_seq example_sc_env [''02'', ''01''] (VotePackage example_envelope) = Inr [1, 5]"
    by code_simp
  have pp: "parse_plaintext example_sc_env
      (decrypt_seq example_sc_env
        (rev (map (\<lambda>k. EncryptionPrivateKeys example_process ! nat k)
               (EncryptionKeyIndexes example_envelope)))
        (VotePackage example_envelope)) = Inr \<lparr>Votes = [1, 5]\<rparr>"
    by code_simp
  have t: "tally_loop (MaxOptions example_sc_env) [[0, 0, 0], [0, 0, 0]] 0
      (Votes \<lparr>Votes = [1, 5]\<rparr>) = Inr [[0, 1, 0], [0, 0, 0]]"
    by code_simp
  note th = scrutinizer_decrypts_in_reverse [OF a1 a2 a3 a4 a5, of "[]" "[[0, 0, 0], [0, 0, 0]]" 0,
      unfolded pp]
  from th have e: "envelopeVotePackage example_sc_env example_process example_envelope
      = Inr \<lparr>Votes = [1, 5]\<rparr>" by simp
  from th t have l: "computeNonLiveResults_loop example_sc_env [1] example_process [[1]]
       [[0, 0, 0], [0, 0, 0]] 0 = Inr ([[0, 1, 0], [0, 0, 0]], 1)"
    by simp
  from a1 a2 ix ks d e l show ?thesis by blast
qed

text \<open>The order matters: on the same envelope the keys in the order of encryption do not
  decrypt.\<close>

lemma decrypt_in_encryption_order_fails:
  "decrypt_seq example_sc_env [''01'', ''02''] (VotePackage example_envelope)
     = Inl (Errorf ''cannot decrypt vote with index key'')"
  by code_simp

subsection \<open>ComputeResult on a computed process\<close>

text \<open>
  Claim C5. For every process whose entry \<open>results:<pid>\<close> exists in the database of the
  Scrutinizer, \<open>ComputeResult\<close> returns an error and leaves the database as it was:
  nothing is written, nothing is deleted. This holds whether or not the process is known
  to the chain and whether or not the read of the entry fails.
\<close>

theorem ComputeResult_existing_results:
  assumes "map_of (Storage s) (encode e ''results'' processID) = Some found"
  shows "\<exists>err. ComputeResult e s processID = (Some err, s)"
  using assms
  by (auto simp: ComputeResult_def Storage_Get_def split: sum.splits option.splits)

theorem ComputeResult_existing_results_witness:
  "map_of (Storage computed_scrutinizer) (encode example_sc_env ''results'' [1]) = Some [0, 1]
   \<and> (\<exists>err. ComputeResult example_sc_env computed_scrutinizer [1] = (Some err, computed_scrutinizer))"
proof -
  have m: "map_of (Storage computed_scrutinizer) (encode example_sc_env ''results'' [1]) = Some [0, 1]"
    by (simp add: computed_scrutinizer_def example_sc_env_def)
  from ComputeResult_existing_results [OF m] m show ?thesis by blast
qed

lemma ComputeResult_example:
  "ComputeResult example_sc_env computed_scrutinizer [1]
     = (Some (Errorf ''process already computed''), computed_scrutinizer)"
  by code_simp

subsection \<open>The tally of a vote package\<close>





text \<open>The table a tally starts from has the shape, and a tally keeps it.\<close>

lemma emptyProcess_shaped: "shaped (MaxQuestions e) (MaxOptions e) (emptyProcess e)"
  by (simp add: shaped_def emptyProcess_def list_all_length)

lemma tallied_shaped: "tallied mq mo pv q0 votes pv' \<Longrightarrow> shaped mq mo pv'"
  by (simp add: tallied_def)





text \<open>Outside the amended claim: an option equal to \<open>MaxOptions\<close> passes the guard
  \<open>opt > MaxOptions\<close> and a negative option passes it too, and the end-of-process tally has
  no guard on the number of entries; on the table of \<open>emptyProcess\<close> each of them is a
  read out of range.\<close>

lemma tally_loop_option_equal_MaxOptions:
  "tally_loop (MaxOptions example_sc_env) (emptyProcess example_sc_env) 0 [3]
     = Inl (Panic ''index out of range'')"
  by code_simp

lemma tally_loop_negative_option:
  "tally_loop (MaxOptions example_sc_env) (emptyProcess example_sc_env) 0 [- 1]
     = Inl (Panic ''index out of range'')"
  by code_simp

lemma tally_loop_too_many_questions:
  "tally_loop (MaxOptions example_sc_env) (emptyProcess example_sc_env) 0 [0, 0, 0]
     = Inl (Panic ''index out of range'')"
  by code_simp

text \<open>At the level of the two tallies: the package with the options 1 and 3, with
  \<open>MaxOptions = 3\<close>, ends both in a panic, and its option 1 is not counted.\<close>

lemma tallies_panic_at_option_MaxOptions:
  "unmarshalVote example_sc_env (VotePackage boundary_envelope) [] = Inr \<lparr>Votes = [1, 3]\<rparr>
   \<and> addLiveResultsVote example_sc_env example_scrutinizer boundary_envelope
       = (Some (Panic ''index out of range''), example_scrutinizer)
   \<and> computeNonLiveResults
         (example_sc_env\<lparr>Envelope := (\<lambda>pid nullifier. Inr boundary_envelope)\<rparr>) [1]
         (example_process\<lparr>IsEncrypted := False\<rparr>)
       = Inl (Panic ''index out of range'')"
  by code_simp

text \<open>Also outside the amended claim: \<open>addLiveResultsVote\<close> reads the table under
  \<open>liveProcess:<pid>\<close> and stores the new one under \<open>process:<pid>\<close>. The table that
  \<open>computeLiveResults\<close> reads is the one from before the vote.\<close>

lemma live_tally_stores_under_process:
  "addLiveResultsVote example_sc_env example_scrutinizer example_plain_envelope
     = (None,
        \<lparr>Storage = [(bytes_of_string ''liveProcess'' @ [58, 1], [0, 0, 0, 0, 0, 0]),
                    (bytes_of_string ''process'' @ [58, 1], [0, 1, 0, 0, 0, 0])]\<rparr>)
   \<and> computeLiveResults example_sc_env
         (snd (addLiveResultsVote example_sc_env example_scrutinizer example_plain_envelope)) [1]
       = Inr []"
  by code_simp

subsection \<open>What is signed\<close>

lemma Hash_buf_longer: "length m < length (Hash_buf m)"
  by (simp add: Hash_buf_def SigningPrefix_def)

lemma Hash_buf_neq: "Hash_buf m \<noteq> m"
  using Hash_buf_longer [of m] by auto

text \<open>
  Claim C2, as amended. The signature of an internal transaction that \<open>signAndSendTx\<close>
  submits (the AddProcessKeys and RevealProcessKeys transactions of the KeyKeeper) is
  computed by \<open>Sign\<close>, that is over the Keccak-256 hash of the signing prefix
  "\x19Ethereum Signed Message:\n", the decimal length of the encoded transaction and
  the encoded transaction (its JSON encoding with an empty signature): whenever
  \<open>signAndSendTx\<close> hands bytes to \<open>SendTX\<close>, they are the encoding of the transaction
  carrying the hex string of that signature.
\<close>

theorem signAndSendTx_signs_prefixed_hash:
  assumes "sent (snd (signAndSendTx c e k tx)) \<noteq> sent k"
  shows "\<exists>txBytes d sg signedBytes.
           json_Marshal e tx = Inr txBytes
         \<and> Private_D (signer k) = Some d
         \<and> crypto_Sign c
              (Keccak256 c (SigningPrefix @ bytes_of_string (decimal (length txBytes)) @ txBytes)) d
             = Inr sg
         \<and> json_Marshal e (tx\<lparr>tx_Signature := Sprintf_x sg\<rparr>) = Inr signedBytes
         \<and> sent (snd (signAndSendTx c e k tx)) = sent k @ [signedBytes]"
  using assms
  by (auto simp: signAndSendTx_def Sign_def Hash_def HashRaw_def Hash_buf_def Let_def
      split: sum.splits option.splits prod.splits if_splits)

theorem signAndSendTx_signs_prefixed_hash_witness:
  "sent (snd (signAndSendTx example_crypto example_env example_keeper example_tx))
     \<noteq> sent example_keeper
   \<and> (\<exists>txBytes d sg signedBytes.
           json_Marshal example_env example_tx = Inr txBytes
         \<and> Private_D (signer example_keeper) = Some d
         \<and> crypto_Sign example_crypto
              (Keccak256 example_crypto
                 (SigningPrefix @ bytes_of_string (decimal (length txBytes)) @ txBytes)) d
             = Inr sg
         \<and> json_Marshal example_env (example_tx\<lparr>tx_Signature := Sprintf_x sg\<rparr>) = Inr signedBytes
         \<and> sent (snd (signAndSendTx example_crypto example_env example_keeper example_tx))
             = sent example_keeper @ [signedBytes])"
proof -
  have a: "sent (snd (signAndSendTx example_crypto example_env example_keeper example_tx))
     \<noteq> sent example_keeper"
    by code_simp
  from signAndSendTx_signs_prefixed_hash [OF a] a show ?thesis by blast
qed

text \<open>
  The claim as stated fails: the bytes that \<open>Hash\<close> hands to Keccak-256 are never the
  message itself (\<open>Hash_buf_neq\<close>), and on the encoded \<open>example_tx\<close> the signature of
  \<open>Sign\<close> is not the one over the hash of the encoding alone.
\<close>

theorem internal_signature_uses_prefix:
  "json_Marshal example_env example_tx = Inr (bytes_of_string ''ab'')
   \<and> Hash_buf (bytes_of_string ''ab'') \<noteq> bytes_of_string ''ab''
   \<and> Sign example_crypto (signer example_keeper) (bytes_of_string ''ab'')
       \<noteq> Sign_spec example_crypto (signer example_keeper) (bytes_of_string ''ab'')"
  by code_simp

subsection \<open>Rollback\<close>

lemma Rollback_pools: "keyPool (Rollback k) = [] \<and> blockPool (Rollback k) = []"
  by (simp add: Rollback_def)

lemma Rollback_OnProcess: "Rollback (snd (OnProcess c e k pid eid)) = Rollback k"
  by (simp add: OnProcess_def Rollback_def Let_def split: sum.splits)

lemma Rollback_OnCancel: "Rollback (snd (OnCancel c e k pid)) = Rollback k"
  by (simp add: OnCancel_def Rollback_def Let_def split: sum.splits option.splits)

lemma signAndSendTx_pools:
  "keyPool (snd (signAndSendTx c e k tx)) = keyPool k
   \<and> blockPool (snd (signAndSendTx c e k tx)) = blockPool k"
  by (simp add: signAndSendTx_def Let_def split: sum.splits prod.splits)

lemma revealKeys_pools:
  "keyPool (snd (revealKeys c e k pid)) = keyPool k
   \<and> blockPool (snd (revealKeys c e k pid)) = blockPool k"
proof -
  have "keyPool k' = keyPool k \<and> blockPool k' = blockPool k"
    if "signAndSendTx c e (k\<lparr>draws := draws k + 1\<rparr>) tx = (err, k')" for tx err k'
    using signAndSendTx_pools [of c e "k\<lparr>draws := draws k + 1\<rparr>" tx] that by simp
  then show ?thesis
    by (auto simp: revealKeys_def Let_def split: sum.splits prod.splits option.splits)
qed

lemma revealKeys_each_pools:
  "keyPool (snd (revealKeys_each c e pids k)) = keyPool k
   \<and> blockPool (snd (revealKeys_each c e pids k)) = blockPool k"
proof (induction pids arbitrary: k)
  case Nil
  show ?case by simp
next
  case (Cons p pids)
  obtain err k1 where r: "revealKeys c e k p = (err, k1)" by (cases "revealKeys c e k p")
  with revealKeys_pools [of c e k p] have "keyPool k1 = keyPool k" "blockPool k1 = blockPool k"
    by simp_all
  with Cons [of k1] r show ?case by (auto split: prod.splits)
qed

lemma checkRevealProcess_pools:
  "keyPool (checkRevealProcess c e k height) = keyPool k
   \<and> blockPool (checkRevealProcess c e k height) = blockPool k"
proof -
  have "keyPool k' = keyPool k \<and> blockPool k' = blockPool k"
    if "revealKeys_each c e pids k = (att, k')" for pids att k'
    using revealKeys_each_pools [of c e pids k] that by simp
  then show ?thesis
    by (auto simp: checkRevealProcess_def Let_def split: sum.splits prod.splits)
qed

text \<open>After a rollback a \<open>Commit\<close> schedules nothing, and a \<open>publishPendingKeys\<close> that
  runs on the keeper of that moment publishes nothing.\<close>

lemma Commit_after_Rollback:
  "Commit e (Rollback k) height
     = (Rollback k, [Go_checkRevealProcess height, Go_publishPendingKeys])"
  by (simp add: Commit_def scheduleRevealKeys_def Rollback_def)

lemma publishPendingKeys_after_Rollback:
  "run_goroutine c e (Rollback k) Go_publishPendingKeys = (None, Rollback k)"
  by (simp add: run_goroutine_def publishPendingKeys_def Rollback_def)


subsection \<open>RevealUnpublished\<close>

lemma revealKeys_each_pids: "map fst (fst (revealKeys_each c e pids k)) = pids"
proof (induction pids arbitrary: k)
  case Nil
  show ?case by simp
next
  case (Cons p pids)
  obtain err k1 where r: "revealKeys c e k p = (err, k1)" by (cases "revealKeys c e k p")
  obtain att k2 where r2: "revealKeys_each c e pids k1 = (att, k2)"
    by (cases "revealKeys_each c e pids k1")
  with Cons [of k1] have "map fst att = pids" by simp
  with r r2 show ?case by simp
qed

lemma RevealUnpublished_loop_pids:
  "map fst (fst (RevealUnpublished_loop c e height items k))
     = concat (map (bucket_pids e height) items)"
proof (induction items arbitrary: k)
  case Nil
  show ?case by simp
next
  case (Cons kv items)
  obtain key val where kv: "kv = (key, val)" by (cases kv)
  have step: "map fst (fst (case revealKeys_each c e pids k of
                     (attempts, k) \<Rightarrow>
                       (case RevealUnpublished_loop c e height items k of
                          (attempts', k) \<Rightarrow> (attempts @ attempts', k))))
      = pids @ concat (map (bucket_pids e height) items)" for pids
  proof -
    obtain att k1 where r: "revealKeys_each c e pids k = (att, k1)"
      by (cases "revealKeys_each c e pids k")
    obtain att' k2 where r2: "RevealUnpublished_loop c e height items k1 = (att', k2)"
      by (cases "RevealUnpublished_loop c e height items k1")
    from r revealKeys_each_pids [of c e pids k] have "map fst att = pids" by simp
    moreover from r2 Cons [of k1] have "map fst att' = concat (map (bucket_pids e height) items)"
      by simp
    ultimately show ?thesis using r r2 by simp
  qed
  have b: "bucket_pids e height (key, val) =
     (if HasPrefix key dbPrefixBlock
      then (case ParseInt (drop (length dbPrefixBlock) key) of
              Inl err \<Rightarrow> []
            | Inr h \<Rightarrow>
               if height \<le> wrap64 (h + 2) then []
               else (case UnmarshalBinaryBare e val of Inl err \<Rightarrow> [] | Inr pids \<Rightarrow> pids))
      else [])"
    by (auto simp: bucket_pids_def split: sum.splits)
  show ?case
    using Cons [of k] step
    by (simp add: kv b split: sum.splits)
qed

lemma ParseUint_loop_bound:
  "ParseUint_loop n s = Inr m \<Longrightarrow> 0 \<le> n \<Longrightarrow> n < 2 ^ 64 \<Longrightarrow> 0 \<le> m \<and> m < 2 ^ 64"
proof (induction n s rule: ParseUint_loop.induct)
  case (1 n)
  then show ?case by simp
next
  case (2 n ch rest)
  let ?d = "of_char ch :: int"
  from "2.prems"(1) have d: "48 \<le> ?d" "?d \<le> 57"
    and ok: "n * 10 + (?d - 48) \<le> 2 ^ 64 - 1"
    and run: "ParseUint_loop (n * 10 + (?d - 48)) rest = Inr m"
    by (auto simp: Let_def split: if_splits)
  from d "2.prems"(2) have "0 \<le> n * 10 + (?d - 48)" by simp
  moreover from ok have "n * 10 + (?d - 48) < 2 ^ 64" by simp
  ultimately show ?case
    using "2.IH" [OF refl _ _ _ run] d "2.prems" ok by (auto simp: Let_def split: if_splits)
qed

lemma ParseInt_range: "ParseInt s = Inr h \<Longrightarrow> - (2 ^ 63) \<le> h \<and> h < 2 ^ 63"
  by (auto simp: ParseInt_def ParseUint_def Let_def
      split: if_splits sum.splits error.splits dest!: ParseUint_loop_bound)

lemma wrap64_id: "- (2 ^ 63) \<le> x \<Longrightarrow> x < 2 ^ 63 \<Longrightarrow> wrap64 x = x"
  by (simp add: wrap64_def)

text \<open>Where \<open>h + 2\<close> is an \<open>int64\<close>, the test of the code is the test of the spec.\<close>

lemma bucket_pids_in_range:
  assumes "bucket_in_range kv"
  shows "bucket_pids e height kv = bucket_pids_spec e height kv"
proof (cases "ParseInt (drop (length dbPrefixBlock) (fst kv))")
  case (Inl err)
  then show ?thesis by (simp add: bucket_pids_def bucket_pids_spec_def)
next
  case (Inr h)
  with assms have "h + 2 < 2 ^ 63" by (simp add: bucket_in_range_def)
  moreover from ParseInt_range [OF Inr] have "- (2 ^ 63) \<le> h + 2" by simp
  ultimately have "wrap64 (h + 2) = h + 2" by (rule wrap64_id [rotated])
  with Inr show ?thesis by (auto simp: bucket_pids_def bucket_pids_spec_def)
qed

lemma RevealUnpublished_due_buckets:
  assumes "State_Header e True = Some currentHeight"
    and "list_all bucket_in_range (storage k)"
  shows "map fst (fst (RevealUnpublished c e k))
     = concat (map (bucket_pids_spec e currentHeight) (Storage_iter (storage k)))"
proof -
  from assms(2) have "\<forall>kv\<in>set (Storage_iter (storage k)). bucket_in_range kv"
    by (simp add: Storage_iter_def list_all_iff)
  then have "map (bucket_pids e currentHeight) (Storage_iter (storage k))
      = map (bucket_pids_spec e currentHeight) (Storage_iter (storage k))"
    by (simp add: bucket_pids_in_range)
  then have "concat (map (bucket_pids e currentHeight) (Storage_iter (storage k)))
      = concat (map (bucket_pids_spec e currentHeight) (Storage_iter (storage k)))"
    by (rule arg_cong)
  with assms(1) show ?thesis
    by (simp add: RevealUnpublished_def RevealUnpublished_loop_pids)
qed

text \<open>
  Claim C7 at a bucket whose height is the largest \<open>int64\<close>. The claim: \<open>RevealUnpublished\<close>
  attempts a reveal exactly for the processes of the buckets \<open>b_<h>\<close> with
  \<open>h + 2 < currentHeight\<close>, and skips the others. It holds for every database whose
  heights leave room for \<open>h + 2\<close> (\<open>RevealUnpublished_due_buckets\<close>). At height 10 the
  bucket \<open>b_9223372036854775807\<close> is not due and the claim reveals nothing; the code adds
  2 on \<open>int64\<close>, gets a negative number, and reveals the keys of the process of the
  bucket.
\<close>

theorem RevealUnpublished_overflow_bucket:
  "State_Header example_env True = Some 10
   \<and> Storage_iter (storage overflow_keeper)
       = [(''b_9223372036854775807'', bytes_of_string ''ab''), (''p_ab'', Encode example_keys)]
   \<and> ParseInt ''9223372036854775807'' = Inr 9223372036854775807
   \<and> \<not> (9223372036854775807 + 2 < (10 :: int))
   \<and> concat (map (bucket_pids_spec example_env 10) (Storage_iter (storage overflow_keeper))) = []
   \<and> fst (RevealUnpublished example_crypto example_env overflow_keeper) = [(''ab'', None)]
   \<and> storage (snd (RevealUnpublished example_crypto example_env overflow_keeper))
       = [(''b_9223372036854775807'', bytes_of_string ''ab'')]
   \<and> length (sent (snd (RevealUnpublished example_crypto example_env overflow_keeper))) = 1"
  by code_simp

end
